theory Spec2Isabelle
  imports Main
begin

section \<open>ChatArea.jsx: the data the component works on\<close>

text \<open>
  The component of \<^verbatim>\<open>src/frontend/src/components/ChatArea.jsx\<close> keeps its own
  React state (\<^verbatim>\<open>isLoading\<close>, \<^verbatim>\<open>streamingMessage\<close>, \<^verbatim>\<open>apiMode\<close>, the editing
  state, ...) and works on the current session of the session context. JavaScript
  objects become records, an absent field (\<^verbatim>\<open>undefined\<close>, \<^verbatim>\<open>null\<close>) becomes
  \<open>None\<close>, a thrown exception or rejected promise becomes \<open>Inl\<close> of a sum.
  Characters are code points below 256. A session is taken to be open
  (\<^verbatim>\<open>currentSession\<close> is not \<^verbatim>\<open>null\<close>). A handler is a function from the state it
  is called in to the state at the end of the exchange it starts; the states at its
  suspension points are given by functions of their own (\<open>awaitAddMessage\<close>,
  \<open>beginSend\<close>, \<open>deliverChunks\<close>), so that another handler can be run from them.
\<close>

datatype js_error = TypeError | Rejected string

text \<open>One entry of a message's \<^verbatim>\<open>edits\<close> array (lines 128-134 and 261-267).\<close>

record edit =
  edit_id :: string
  edit_model_name :: string
  edit_timestamp :: string
  edit_question :: string
  edit_answer :: string

text \<open>
  A message object. The handlers read and write \<^verbatim>\<open>id\<close>, \<^verbatim>\<open>edits\<close>,
  \<^verbatim>\<open>question\<close>, \<^verbatim>\<open>answer\<close> and \<^verbatim>\<open>model_name\<close>; every other property an object
  may carry is copied along by the object spread and is the field \<open>other\<close>.
\<close>

record 'x message =
  msg_id :: string
  edits :: "edit list option"
  question :: "string option"
  answer :: "string option"
  model_name :: "string option"
  other :: 'x

text \<open>The session (thread) of the session context: \<^verbatim>\<open>currentSession\<close>.\<close>

record 'x session =
  session_id :: string
  isTemporary :: bool
  modelName :: string
  messages :: "'x message list"

text \<open>The state of the component (the \<^verbatim>\<open>useState\<close> cells of lines 12-27) together
  with the current session of the context.\<close>

record 'x chat_area =
  currentSession :: "'x session"
  isLoading :: bool
  selectedModel :: string
  uploadedFiles :: "string list"
  useContext :: bool
  streamingMessage :: string
  apiMode :: bool
  editingMessageId :: "string option"
  editingMessageText :: string

text \<open>The object \<^verbatim>\<open>createThread\<close> resolves to; the handler reads its \<^verbatim>\<open>thread_id\<close>.\<close>

record new_thread =
  thread_id :: string

text \<open>A call of the backend service, with its arguments, as it goes over the wire.\<close>

datatype call =
  CreateThread
  | CreateMessage string string string string
  | CreateMessageEdit string string string string
  | GetConversation string

text \<open>What the streaming simulator delivers to the callbacks it was given: the chunks,
  in emission order, and then either the completion or the error.\<close>

datatype sim_result = OnComplete string | OnError js_error

record sim_run =
  chunks :: "string list"
  final :: sim_result

text \<open>A call of one of the functions the component takes from the session context
  (line 11), with its arguments.\<close>

datatype 'x context_call =
  AddMessage string bool "string option"
  | ConvertTemporarySession string new_thread
  | UpdateSessionModel string string "'x message list"

text \<open>
  What lies outside the component: the backend with its state \<open>'b\<close>, the calls made to
  it, the calls made to the session context, and what \<^verbatim>\<open>console.error\<close> has printed.
\<close>

record ('b, 'x) world =
  backend :: 'b
  calls :: "call list"
  context_calls :: "'x context_call list"
  console_errors :: "js_error list"

text \<open>
  The collaborators the component imports, as parameters: the five functions of
  \<^verbatim>\<open>apiService\<close> (each network call takes the backend's state and returns its result
  with the new state; \<open>transformConversation\<close> gives the \<^verbatim>\<open>messages\<close> of the transformed
  conversation), \<^verbatim>\<open>mockApiService.sendMessage\<close>, the message object the session context
  builds in \<^verbatim>\<open>addMessage\<close>, and the clock read by \<^verbatim>\<open>new Date().toISOString()\<close>.
\<close>

record ('b, 'c, 'x) env =
  createThread :: "'b \<Rightarrow> (js_error + new_thread) \<times> 'b"
  createMessage :: "string \<Rightarrow> string \<Rightarrow> string \<Rightarrow> string \<Rightarrow> 'b \<Rightarrow> (js_error + unit) \<times> 'b"
  createMessageEdit :: "string \<Rightarrow> string \<Rightarrow> string \<Rightarrow> string \<Rightarrow> 'b \<Rightarrow> (js_error + unit) \<times> 'b"
  getConversation :: "string \<Rightarrow> 'b \<Rightarrow> (js_error + 'c) \<times> 'b"
  transformConversation :: "'c \<Rightarrow> 'x message list"
  sendMessage :: "string \<Rightarrow> string \<Rightarrow> bool \<Rightarrow> string \<Rightarrow> sim_run"
  newMessage :: "'x session \<Rightarrow> string \<Rightarrow> bool \<Rightarrow> string option \<Rightarrow> 'x message"
  now :: string

section \<open>JavaScript helpers\<close>

text \<open>\<^verbatim>\<open>String.prototype.trim\<close>: white space and line terminators are removed at both
  ends. Of the characters it removes, TAB, LF, VT, FF, CR, SP and NBSP are code points
  below 256; the others (U+1680, U+2000 to U+200A, U+2028, U+2029, U+202F, U+205F,
  U+3000, U+FEFF) are not characters of the strings of this theory.\<close>

definition js_whitespace :: "char \<Rightarrow> bool" where
  "js_whitespace c = (of_char c \<in> {9, 10, 11, 12, 13, 32, 160 :: nat})"

definition trim :: "string \<Rightarrow> string" where
  "trim s = rev (dropWhile js_whitespace (rev (dropWhile js_whitespace s)))"

text \<open>\<^verbatim>\<open>Array.prototype.find\<close> and \<^verbatim>\<open>findIndex\<close>: the first element that satisfies the
  test (\<open>None\<close> for \<^verbatim>\<open>undefined\<close> and for \<^verbatim>\<open>-1\<close>).\<close>

fun findIndex :: "('a \<Rightarrow> bool) \<Rightarrow> 'a list \<Rightarrow> nat option" where
  "findIndex P [] = None"
| "findIndex P (x # xs) =
     (if P x then Some 0 else (case findIndex P xs of None \<Rightarrow> None | Some i \<Rightarrow> Some (Suc i)))"

text \<open>A number inside a template literal: its decimal digits.\<close>

fun show_nat :: "nat \<Rightarrow> string" where
  "show_nat n =
     (if n < 10 then [char_of (48 + n)]
      else show_nat (n div 10) @ [char_of (48 + n mod 10)])"

declare show_nat.simps [simp del]

section \<open>The session context\<close>

text \<open>
  Modelled from the spec: \<^verbatim>\<open>addMessage\<close> of the session context
  (\<^verbatim>\<open>context/SessionContext\<close>, not among the source files). The spec's
  \<^verbatim>\<open>appendMessage\<close> "appends to thread.messages, preserving order"; the message object
  built from the text, the user flag and the model name is the parameter \<open>newMessage\<close>.
\<close>

definition addMessage ::
  "('b, 'c, 'x) env \<Rightarrow> string \<Rightarrow> bool \<Rightarrow> string option \<Rightarrow> 'x chat_area \<Rightarrow> 'x chat_area" where
  "addMessage env text isUser model st =
     st\<lparr>currentSession := (currentSession st)
       \<lparr>messages := messages (currentSession st)
          @ [newMessage env (currentSession st) text isUser model]\<rparr>\<rparr>"

text \<open>
  Modelled from the spec: \<^verbatim>\<open>updateSessionModel\<close> of the session context (not among the
  source files). It is the spec's \<^verbatim>\<open>setModel\<close> ("updates the active model selection for
  the thread") and \<^verbatim>\<open>replaceMessages\<close> ("wholesale replace of the message list") on the
  thread that has the given id.
\<close>

definition updateSessionModel ::
  "string \<Rightarrow> string \<Rightarrow> 'x message list \<Rightarrow> 'x chat_area \<Rightarrow> 'x chat_area" where
  "updateSessionModel threadId model newMessages st =
     (if session_id (currentSession st) = threadId
      then st\<lparr>currentSession := (currentSession st)\<lparr>modelName := model, messages := newMessages\<rparr>\<rparr>
      else st)"

text \<open>
  Modelled from the spec: \<^verbatim>\<open>convertTemporarySession\<close> of the session context (not among
  the source files). It is the second half of the spec's \<^verbatim>\<open>ensurePersisted\<close>: "replaces
  thread.id with the backend-assigned id, sets temporary = false", and "repeated calls on
  an already-persisted thread are no-ops".
\<close>

definition convertTemporarySession ::
  "string \<Rightarrow> new_thread \<Rightarrow> 'x chat_area \<Rightarrow> 'x chat_area" where
  "convertTemporarySession oldId newThread st =
     (if session_id (currentSession st) = oldId \<and> isTemporary (currentSession st)
      then st\<lparr>currentSession := (currentSession st)
             \<lparr>session_id := thread_id newThread, isTemporary := False\<rparr>\<rparr>
      else st)"

text \<open>Each call of a context function is recorded in \<open>context_calls\<close> and has the
  effect on the session given above.\<close>

definition call_addMessage ::
  "('b, 'c, 'x) env \<Rightarrow> string \<Rightarrow> bool \<Rightarrow> string option \<Rightarrow> 'x chat_area \<times> ('b, 'x) world
     \<Rightarrow> 'x chat_area \<times> ('b, 'x) world" where
  "call_addMessage env text isUser model = (\<lambda>(st, w).
     (addMessage env text isUser model st,
      w\<lparr>context_calls := context_calls w @ [AddMessage text isUser model]\<rparr>))"

definition call_updateSessionModel ::
  "string \<Rightarrow> string \<Rightarrow> 'x message list \<Rightarrow> 'x chat_area \<times> ('b, 'x) world
     \<Rightarrow> 'x chat_area \<times> ('b, 'x) world" where
  "call_updateSessionModel threadId model newMessages = (\<lambda>(st, w).
     (updateSessionModel threadId model newMessages st,
      w\<lparr>context_calls := context_calls w @ [UpdateSessionModel threadId model newMessages]\<rparr>))"

definition call_convertTemporarySession ::
  "string \<Rightarrow> new_thread \<Rightarrow> 'x chat_area \<times> ('b, 'x) world \<Rightarrow> 'x chat_area \<times> ('b, 'x) world" where
  "call_convertTemporarySession oldId newThread = (\<lambda>(st, w).
     (convertTemporarySession oldId newThread st,
      w\<lparr>context_calls := context_calls w @ [ConvertTemporarySession oldId newThread]\<rparr>))"

section \<open>Calls of the backend service\<close>

text \<open>Each \<^verbatim>\<open>await apiService.f(...)\<close> runs the backend and is recorded in \<open>calls\<close>.\<close>

definition call_createThread ::
  "('b, 'c, 'x) env \<Rightarrow> ('b, 'x) world \<Rightarrow> (js_error + new_thread) \<times> ('b, 'x) world" where
  "call_createThread env w =
     (case createThread env (backend w) of
        (r, b) \<Rightarrow> (r, w\<lparr>backend := b, calls := calls w @ [CreateThread]\<rparr>))"

definition call_createMessage ::
  "('b, 'c, 'x) env \<Rightarrow> string \<Rightarrow> string \<Rightarrow> string \<Rightarrow> string \<Rightarrow> ('b, 'x) world
     \<Rightarrow> (js_error + unit) \<times> ('b, 'x) world" where
  "call_createMessage env threadId q a model w =
     (case createMessage env threadId q a model (backend w) of
        (r, b) \<Rightarrow> (r, w\<lparr>backend := b, calls := calls w @ [CreateMessage threadId q a model]\<rparr>))"

definition call_createMessageEdit ::
  "('b, 'c, 'x) env \<Rightarrow> string \<Rightarrow> string \<Rightarrow> string \<Rightarrow> string \<Rightarrow> ('b, 'x) world
     \<Rightarrow> (js_error + unit) \<times> ('b, 'x) world" where
  "call_createMessageEdit env messageId q a model w =
     (case createMessageEdit env messageId q a model (backend w) of
        (r, b) \<Rightarrow> (r, w\<lparr>backend := b, calls := calls w @ [CreateMessageEdit messageId q a model]\<rparr>))"

definition call_getConversation ::
  "('b, 'c, 'x) env \<Rightarrow> string \<Rightarrow> ('b, 'x) world \<Rightarrow> (js_error + 'c) \<times> ('b, 'x) world" where
  "call_getConversation env threadId w =
     (case getConversation env threadId (backend w) of
        (r, b) \<Rightarrow> (r, w\<lparr>backend := b, calls := calls w @ [GetConversation threadId]\<rparr>))"

section \<open>handleSendMessage (lines 56-176)\<close>

definition fallbackText :: string where
  "fallbackText = ''I'm sorry, I encountered an error processing your request.''"

text \<open>Line 70, the template literal.\<close>

definition simulatedResponse :: "string \<Rightarrow> string \<Rightarrow> string" where
  "simulatedResponse message model =
     ''This is a response to: '' @ [CHR 0x22] @ message @ [CHR 0x22]
     @ ''. In a real implementation, this would be generated by an LLM model (''
     @ model @ '').''"

text \<open>
  Lines 73-81. \<open>cs\<close> is the \<^verbatim>\<open>currentSession\<close> the handler closed over: the session as
  it was when the handler was created, which the calls of the context do not change.
  The result is the \<^verbatim>\<open>threadId\<close> to use from here on.
\<close>

definition ensureThread ::
  "('b, 'c, 'x) env \<Rightarrow> 'x session \<Rightarrow> 'x chat_area \<times> ('b, 'x) world
     \<Rightarrow> (js_error + string) \<times> 'x chat_area \<times> ('b, 'x) world" where
  "ensureThread env cs = (\<lambda>(st, w).
     if isTemporary cs then
       (case call_createThread env w of
          (Inl e, w1) \<Rightarrow> (Inl e, st, w1)
        | (Inr newThread, w1) \<Rightarrow>
            (case call_convertTemporarySession (session_id cs) newThread (st, w1) of
               (st1, w2) \<Rightarrow> (Inr (thread_id newThread), st1, w2)))
     else (Inr (session_id cs), st, w))"

text \<open>Lines 68-99, the body of \<^verbatim>\<open>try\<close>: \<open>Inl e\<close> when it throws \<open>e\<close>.\<close>

definition sendTry ::
  "('b, 'c, 'x) env \<Rightarrow> string \<Rightarrow> 'x session \<Rightarrow> string \<Rightarrow> 'x chat_area \<times> ('b, 'x) world
     \<Rightarrow> (js_error + unit) \<times> 'x chat_area \<times> ('b, 'x) world" where
  "sendTry env message cs model stw =
     (case ensureThread env cs stw of
        (Inl e, st1, w1) \<Rightarrow> (Inl e, st1, w1)
      | (Inr threadId, st1, w1) \<Rightarrow>
          (case call_createMessage env threadId message (simulatedResponse message model) model w1 of
             (Inl e, w2) \<Rightarrow> (Inl e, st1, w2)
           | (Inr _, w2) \<Rightarrow>
               (case call_getConversation env threadId w2 of
                  (Inl e, w3) \<Rightarrow> (Inl e, st1, w3)
                | (Inr updatedConversation, w3) \<Rightarrow>
                    (case call_updateSessionModel threadId model
                            (transformConversation env updatedConversation) (st1, w3) of
                       (st2, w4) \<Rightarrow>
                         (Inr (), st2\<lparr>isLoading := False, streamingMessage := []\<rparr>, w4)))))"

text \<open>Lines 66-105: the \<^verbatim>\<open>try\<close> with its \<^verbatim>\<open>catch\<close>.\<close>

definition sendApi ::
  "('b, 'c, 'x) env \<Rightarrow> string \<Rightarrow> 'x session \<Rightarrow> string \<Rightarrow> 'x chat_area \<times> ('b, 'x) world
     \<Rightarrow> 'x chat_area \<times> ('b, 'x) world" where
  "sendApi env message cs model stw =
     (case sendTry env message cs model stw of
        (Inr _, st1, w1) \<Rightarrow> (st1, w1)
      | (Inl e, st1, w1) \<Rightarrow>
          (case call_addMessage env fallbackText False (Some model)
                  (st1, w1\<lparr>console_errors := console_errors w1 @ [e]\<rparr>) of
             (st2, w2) \<Rightarrow> (st2\<lparr>isLoading := False, streamingMessage := []\<rparr>, w2)))"

text \<open>Lines 113-115, the chunk callback: \<^verbatim>\<open>setStreamingMessage(prev => prev + chunk)\<close>.\<close>

definition onChunk :: "'x chat_area \<Rightarrow> string \<Rightarrow> 'x chat_area" where
  "onChunk st chunk = st\<lparr>streamingMessage := streamingMessage st @ chunk\<rparr>"

text \<open>
  Lines 117-164, the completion callback. \<^verbatim>\<open>lastMessage.edits\<close> is truthy for every
  array, \<^verbatim>\<open>lastMessage.question\<close> for every string but the empty one; with no message in
  the list \<^verbatim>\<open>lastMessage\<close> is \<^verbatim>\<open>undefined\<close> and the last branch is taken.
\<close>

definition onComplete ::
  "('b, 'c, 'x) env \<Rightarrow> 'x session \<Rightarrow> string \<Rightarrow> string \<Rightarrow> string
     \<Rightarrow> 'x chat_area \<times> ('b, 'x) world \<Rightarrow> 'x chat_area \<times> ('b, 'x) world" where
  "onComplete env cs message model fullResponse stw =
     (let fallBack = call_addMessage env fullResponse False (Some model) stw
      in case
           (if messages cs = [] then fallBack
            else
              (let lastMessageIndex = length (messages cs) - 1;
                   lastMessage = messages cs ! lastMessageIndex
               in case edits lastMessage of
                    Some es \<Rightarrow>
                      call_updateSessionModel (session_id cs) model
                        ((messages cs)[lastMessageIndex := lastMessage
                           \<lparr>edits := Some (es @
                              [\<lparr>edit_id = ''mock_edit_'' @ show_nat (length es + 1),
                                edit_model_name = model,
                                edit_timestamp = now env,
                                edit_question = message,
                                edit_answer = fullResponse\<rparr>])\<rparr>]) stw
                  | None \<Rightarrow>
                      (if question lastMessage \<noteq> None \<and> question lastMessage \<noteq> Some []
                       then call_updateSessionModel (session_id cs) model
                              ((messages cs)[lastMessageIndex := lastMessage
                                 \<lparr>answer := Some fullResponse, model_name := Some model\<rparr>]) stw
                       else fallBack)))
         of (st1, w1) \<Rightarrow> (st1\<lparr>isLoading := False, streamingMessage := []\<rparr>, w1))"

text \<open>Lines 166-171, the error callback.\<close>

definition onError ::
  "('b, 'c, 'x) env \<Rightarrow> string \<Rightarrow> js_error \<Rightarrow> 'x chat_area \<times> ('b, 'x) world \<Rightarrow> 'x chat_area \<times> ('b, 'x) world" where
  "onError env model e = (\<lambda>(st, w).
     case call_addMessage env fallbackText False (Some model)
            (st, w\<lparr>console_errors := console_errors w @ [e]\<rparr>) of
       (st1, w1) \<Rightarrow> (st1\<lparr>isLoading := False, streamingMessage := []\<rparr>, w1))"

text \<open>The state once the simulator has delivered the given chunks.\<close>

definition deliverChunks :: "'x chat_area \<Rightarrow> string list \<Rightarrow> 'x chat_area" where
  "deliverChunks st cks = foldl onChunk st cks"

text \<open>Lines 107-174: the simulator is started and calls back, the chunks first.\<close>

definition sendMock ::
  "('b, 'c, 'x) env \<Rightarrow> string \<Rightarrow> 'x session \<Rightarrow> string \<Rightarrow> sim_run \<Rightarrow> 'x chat_area \<times> ('b, 'x) world
     \<Rightarrow> 'x chat_area \<times> ('b, 'x) world" where
  "sendMock env message cs model run = (\<lambda>(st, w).
     (case final run of
        OnComplete fullResponse \<Rightarrow>
          onComplete env cs message model fullResponse (deliverChunks st (chunks run), w)
      | OnError e \<Rightarrow> onError env model e (deliverChunks st (chunks run), w)))"

text \<open>
  Line 60: \<^verbatim>\<open>await addMessage(message, true, null)\<close>. The call is made and the handler
  is suspended until its promise settles: this is the state in which other handlers can
  run before line 63 is reached. The loading flag is still what it was.
\<close>

definition awaitAddMessage ::
  "('b, 'c, 'x) env \<Rightarrow> string \<Rightarrow> 'x chat_area \<times> ('b, 'x) world
     \<Rightarrow> 'x chat_area \<times> ('b, 'x) world" where
  "awaitAddMessage env message stw = call_addMessage env message True None stw"

text \<open>Lines 59-64: the user's message is added and, when the handler resumes, the
  loading state is set.\<close>

definition beginSend ::
  "('b, 'c, 'x) env \<Rightarrow> string \<Rightarrow> 'x chat_area \<times> ('b, 'x) world
     \<Rightarrow> 'x chat_area \<times> ('b, 'x) world" where
  "beginSend env message stw =
     (case awaitAddMessage env message stw of
        (st1, w1) \<Rightarrow> (st1\<lparr>isLoading := True, streamingMessage := []\<rparr>, w1))"

text \<open>
  The handler, followed to the end of the exchange it starts, when nothing else runs
  in between: in mock mode that is the run of the simulator's callbacks.
\<close>

definition handleSendMessage ::
  "('b, 'c, 'x) env \<Rightarrow> string \<Rightarrow> 'x chat_area \<times> ('b, 'x) world \<Rightarrow> 'x chat_area \<times> ('b, 'x) world" where
  "handleSendMessage env message = (\<lambda>(st, w).
     if trim message = [] \<or> isLoading st then (st, w)
     else
       (let cs = currentSession st;
            model = selectedModel st;
            started = beginSend env message (st, w)
        in if apiMode st then sendApi env message cs model started
           else sendMock env message cs model
                  (sendMessage env message model (useContext st \<and> uploadedFiles st \<noteq> [])
                     (session_id cs))
                  started))"

section \<open>Editing (lines 213-310)\<close>

definition handleEditMessage :: "string \<Rightarrow> string \<Rightarrow> 'x chat_area \<Rightarrow> 'x chat_area" where
  "handleEditMessage messageId questionText st =
     st\<lparr>editingMessageId := Some messageId, editingMessageText := questionText\<rparr>"

definition handleCancelEdit :: "'x chat_area \<Rightarrow> 'x chat_area" where
  "handleCancelEdit st = st\<lparr>editingMessageId := None, editingMessageText := []\<rparr>"

text \<open>Line 235, the template literal.\<close>

definition simulatedEditResponse :: "string \<Rightarrow> string \<Rightarrow> string" where
  "simulatedEditResponse updatedMessage model =
     ''This is a response to the edited question: '' @ [CHR 0x22] @ updatedMessage @ [CHR 0x22]
     @ ''. Generated by '' @ model @ ''.''"

text \<open>Line 258, \<^verbatim>\<open>edits[edits.length - 1]\<close>: \<^verbatim>\<open>undefined\<close> on the empty array.\<close>

definition latestEdit :: "edit list \<Rightarrow> edit option" where
  "latestEdit es = (if es = [] then None else Some (es ! (length es - 1)))"

text \<open>
  Lines 231-294, the body of \<^verbatim>\<open>try\<close> up to the clearing of the editing state.
  Reading \<^verbatim>\<open>answer\<close> of an \<^verbatim>\<open>undefined\<close> latest edit and spreading an \<^verbatim>\<open>undefined\<close>
  \<^verbatim>\<open>edits\<close> throw a TypeError.
\<close>

definition submitTry ::
  "('b, 'c, 'x) env \<Rightarrow> string \<Rightarrow> 'x session \<Rightarrow> string \<Rightarrow> bool \<Rightarrow> string \<Rightarrow> 'x message
     \<Rightarrow> 'x chat_area \<times> ('b, 'x) world \<Rightarrow> (js_error + unit) \<times> 'x chat_area \<times> ('b, 'x) world" where
  "submitTry env updatedMessage cs model api eid messageToEdit = (\<lambda>(st, w).
     if api then
       (case edits messageToEdit of
          None \<Rightarrow> (Inr (), st, w)
        | Some _ \<Rightarrow>
            (case call_createMessageEdit env (msg_id messageToEdit) updatedMessage
                    (simulatedEditResponse updatedMessage model) model w of
               (Inl e, w1) \<Rightarrow> (Inl e, st, w1)
             | (Inr _, w1) \<Rightarrow>
                 (case call_getConversation env (session_id cs) w1 of
                    (Inl e, w2) \<Rightarrow> (Inl e, st, w2)
                  | (Inr updatedConversation, w2) \<Rightarrow>
                      (case call_updateSessionModel (session_id cs) model
                              (transformConversation env updatedConversation) (st, w2) of
                         (st1, w3) \<Rightarrow> (Inr (), st1, w3)))))
     else
       (case edits messageToEdit of
          Some es \<Rightarrow>
            (case latestEdit es of
               None \<Rightarrow> (Inl TypeError, st, w)
             | Some latest \<Rightarrow>
                 (let newEdit =
                        \<lparr>edit_id = ''mock_edit_'' @ show_nat (length es + 1),
                         edit_model_name = model,
                         edit_timestamp = now env,
                         edit_question = updatedMessage,
                         edit_answer = edit_answer latest\<rparr>;
                      updatedMessages = messages cs
                  in case findIndex (\<lambda>msg. msg_id msg = eid) updatedMessages of
                       None \<Rightarrow> (Inr (), st, w)
                     | Some messageIndex \<Rightarrow>
                         (case edits (updatedMessages ! messageIndex) of
                            None \<Rightarrow> (Inl TypeError, st, w)
                          | Some es' \<Rightarrow>
                              (case call_updateSessionModel (session_id cs) model
                                      (updatedMessages[messageIndex :=
                                         (updatedMessages ! messageIndex)
                                           \<lparr>edits := Some (es' @ [newEdit])\<rparr>]) (st, w) of
                                 (st1, w1) \<Rightarrow> (Inr (), st1, w1)))))
        | None \<Rightarrow>
            (let updatedMessages = messages cs
             in case findIndex (\<lambda>msg. msg_id msg = eid) updatedMessages of
                  None \<Rightarrow> (Inr (), st, w)
                | Some messageIndex \<Rightarrow>
                    (case call_updateSessionModel (session_id cs) model
                            (updatedMessages[messageIndex := (updatedMessages ! messageIndex)
                               \<lparr>question := Some updatedMessage\<rparr>]) (st, w) of
                       (st1, w1) \<Rightarrow> (Inr (), st1, w1)))))"

text \<open>
  Lines 220-304. \<^verbatim>\<open>!editingMessageId\<close> holds for \<^verbatim>\<open>null\<close> and for the empty string.
\<close>

definition handleSubmitEdit ::
  "('b, 'c, 'x) env \<Rightarrow> string \<Rightarrow> 'x chat_area \<times> ('b, 'x) world \<Rightarrow> 'x chat_area \<times> ('b, 'x) world" where
  "handleSubmitEdit env updatedMessage = (\<lambda>(st, w).
     case editingMessageId st of
       None \<Rightarrow> (st, w)
     | Some eid \<Rightarrow>
         if eid = [] \<or> trim updatedMessage = [] then (st, w)
         else
           (let cs = currentSession st in
            case find (\<lambda>msg. msg_id msg = eid) (messages cs) of
              None \<Rightarrow> (st, w)
            | Some messageToEdit \<Rightarrow>
                (case submitTry env updatedMessage cs (selectedModel st) (apiMode st) eid
                        messageToEdit (st\<lparr>isLoading := True\<rparr>, w) of
                   (Inr _, st1, w1) \<Rightarrow>
                     (st1\<lparr>editingMessageId := None, editingMessageText := [], isLoading := False\<rparr>,
                      w1)
                 | (Inl e, st1, w1) \<Rightarrow>
                     (st1\<lparr>isLoading := False\<rparr>,
                      w1\<lparr>console_errors := console_errors w1 @ [e]\<rparr>))))"

section \<open>The two places that append an edit, on an explicit store\<close>

text \<open>
  An address of the store. Objects and arrays are cells of the store, and a property
  or an element that holds an object or an array holds its address, so that two
  references to one object are told from two equal objects.
\<close>

type_synonym addr = nat

text \<open>A message object in the store: its \<^verbatim>\<open>edits\<close> is the address of an array.\<close>

record 'x message_obj =
  o_id :: string
  o_edits :: "addr option"
  o_question :: "string option"
  o_answer :: "string option"
  o_model_name :: "string option"
  o_other :: 'x

text \<open>The cells: message and edit objects, and arrays of their addresses.\<close>

datatype 'x cell =
  MessageObj "'x message_obj"
  | EditObj edit
  | MessageArray "addr list"
  | EditArray "addr list"

text \<open>The store is the list of its cells, a cell's address its position. An object or
  array literal takes the next free address (\<open>alloc\<close>); an assignment to an element
  of an array overwrites the array's cell where it is (\<open>array_set\<close>; the index is
  within the array at both places it is used).\<close>

type_synonym 'x store = "'x cell list"

definition cell_at :: "'x store \<Rightarrow> addr \<Rightarrow> 'x cell option" where
  "cell_at h a = (if a < length h then Some (h ! a) else None)"

definition alloc :: "'x store \<Rightarrow> 'x cell \<Rightarrow> addr \<times> 'x store" where
  "alloc h c = (length h, h @ [c])"

definition array_set :: "'x store \<Rightarrow> addr \<Rightarrow> nat \<Rightarrow> addr \<Rightarrow> 'x store" where
  "array_set h a i v =
     (case cell_at h a of
        Some (MessageArray rs) \<Rightarrow> h[a := MessageArray (rs[i := v])]
      | _ \<Rightarrow> h)"

text \<open>The value a reference stands for: the message or the message list as the rest of
  this theory has it, read through the addresses (\<open>None\<close> where an address does not
  hold what it should).\<close>

primrec read_all :: "(addr \<Rightarrow> 'a option) \<Rightarrow> addr list \<Rightarrow> 'a list option" where
  "read_all f [] = Some []"
| "read_all f (r # rs) =
     (case f r of
        None \<Rightarrow> None
      | Some x \<Rightarrow> (case read_all f rs of None \<Rightarrow> None | Some xs \<Rightarrow> Some (x # xs)))"

definition read_edit :: "'x store \<Rightarrow> addr \<Rightarrow> edit option" where
  "read_edit h a = (case cell_at h a of Some (EditObj e) \<Rightarrow> Some e | _ \<Rightarrow> None)"

definition read_edits :: "'x store \<Rightarrow> addr \<Rightarrow> edit list option" where
  "read_edits h a =
     (case cell_at h a of Some (EditArray rs) \<Rightarrow> read_all (read_edit h) rs | _ \<Rightarrow> None)"

definition read_message :: "'x store \<Rightarrow> addr \<Rightarrow> 'x message option" where
  "read_message h a =
     (case cell_at h a of
        Some (MessageObj ob) \<Rightarrow>
          (case o_edits ob of
             None \<Rightarrow>
               Some \<lparr>msg_id = o_id ob, edits = None, question = o_question ob,
                     answer = o_answer ob, model_name = o_model_name ob, other = o_other ob\<rparr>
           | Some ea \<Rightarrow>
               (case read_edits h ea of
                  None \<Rightarrow> None
                | Some es \<Rightarrow>
                    Some \<lparr>msg_id = o_id ob, edits = Some es, question = o_question ob,
                          answer = o_answer ob, model_name = o_model_name ob,
                          other = o_other ob\<rparr>))
      | _ \<Rightarrow> None)"

definition read_messages :: "'x store \<Rightarrow> addr \<Rightarrow> 'x message list option" where
  "read_messages h a =
     (case cell_at h a of Some (MessageArray rs) \<Rightarrow> read_all (read_message h) rs | _ \<Rightarrow> None)"

text \<open>The test \<^verbatim>\<open>msg.id === editingMessageId\<close> on a reference.\<close>

definition has_id :: "'x store \<Rightarrow> string \<Rightarrow> addr \<Rightarrow> bool" where
  "has_id h eid r = (case cell_at h r of Some (MessageObj ob) \<Rightarrow> o_id ob = eid | _ \<Rightarrow> False)"

text \<open>
  Lines 119-138, the branch for a last message with \<^verbatim>\<open>edits\<close>, on the store: the object
  literal of the new edit, the array literal \<^verbatim>\<open>[...lastMessage.edits, {...}]\<close>, the
  object literal \<^verbatim>\<open>{...lastMessage, edits: ...}\<close>, the copy
  \<^verbatim>\<open>[...currentSession.messages]\<close> and the assignment
  \<^verbatim>\<open>updatedMessages[lastMessageIndex] = updatedMessage\<close>. The result is the new store
  and the address of \<^verbatim>\<open>updatedMessages\<close>, which is what \<^verbatim>\<open>updateSessionModel\<close> is called
  with; \<open>None\<close> where the branch is not taken.
\<close>

definition completeEditsBranch ::
  "'x store \<Rightarrow> addr \<Rightarrow> string \<Rightarrow> string \<Rightarrow> string \<Rightarrow> string \<Rightarrow> ('x store \<times> addr) option" where
  "completeEditsBranch h messagesRef message model timestamp fullResponse =
     (case cell_at h messagesRef of
        Some (MessageArray refs) \<Rightarrow>
          if refs = [] then None
          else
            (let lastMessageIndex = length refs - 1;
                 lastMessage = refs ! lastMessageIndex
             in case cell_at h lastMessage of
                  Some (MessageObj ob) \<Rightarrow>
                    (case o_edits ob of
                       None \<Rightarrow> None
                     | Some editsRef \<Rightarrow>
                         (case cell_at h editsRef of
                            Some (EditArray erefs) \<Rightarrow>
                              (case alloc h (EditObj
                                      \<lparr>edit_id = ''mock_edit_'' @ show_nat (length erefs + 1),
                                       edit_model_name = model,
                                       edit_timestamp = timestamp,
                                       edit_question = message,
                                       edit_answer = fullResponse\<rparr>) of
                                 (newEdit, h1) \<Rightarrow>
                               (case alloc h1 (EditArray (erefs @ [newEdit])) of
                                 (newEdits, h2) \<Rightarrow>
                               (case alloc h2 (MessageObj (ob\<lparr>o_edits := Some newEdits\<rparr>)) of
                                 (updatedMessage, h3) \<Rightarrow>
                               (case alloc h3 (MessageArray refs) of
                                 (updatedMessages, h4) \<Rightarrow>
                                   Some (array_set h4 updatedMessages lastMessageIndex
                                           updatedMessage,
                                         updatedMessages)))))
                          | _ \<Rightarrow> None))
                | _ \<Rightarrow> None)
      | _ \<Rightarrow> None)"

text \<open>
  Lines 224 and 256-276 on the store: \<^verbatim>\<open>find\<close>, the latest edit, the object literal of
  \<^verbatim>\<open>newEdit\<close>, the copy \<^verbatim>\<open>[...currentSession.messages]\<close>, \<^verbatim>\<open>findIndex\<close>, and the
  assignment of \<^verbatim>\<open>{...updatedMessages[messageIndex], edits: [..., newEdit]}\<close> to
  \<^verbatim>\<open>updatedMessages[messageIndex]\<close>. \<open>None\<close> where the branch is not taken or line 266
  throws.
\<close>

definition submitEditsBranch ::
  "'x store \<Rightarrow> addr \<Rightarrow> string \<Rightarrow> string \<Rightarrow> string \<Rightarrow> string \<Rightarrow> ('x store \<times> addr) option" where
  "submitEditsBranch h messagesRef eid updatedMessage model timestamp =
     (case cell_at h messagesRef of
        Some (MessageArray refs) \<Rightarrow>
          (case find (has_id h eid) refs of
             None \<Rightarrow> None
           | Some messageToEdit \<Rightarrow>
               (case cell_at h messageToEdit of
                  Some (MessageObj ob) \<Rightarrow>
                    (case o_edits ob of
                       None \<Rightarrow> None
                     | Some editsRef \<Rightarrow>
                         (case cell_at h editsRef of
                            Some (EditArray erefs) \<Rightarrow>
                              if erefs = [] then None
                              else
                                (case cell_at h (erefs ! (length erefs - 1)) of
                                   Some (EditObj latest) \<Rightarrow>
                                     (case alloc h (EditObj
                                             \<lparr>edit_id = ''mock_edit_'' @ show_nat (length erefs + 1),
                                              edit_model_name = model,
                                              edit_timestamp = timestamp,
                                              edit_question = updatedMessage,
                                              edit_answer = edit_answer latest\<rparr>) of
                                        (newEdit, h1) \<Rightarrow>
                                      (case alloc h1 (MessageArray refs) of
                                        (updatedMessages, h2) \<Rightarrow>
                                      (case findIndex (has_id h2 eid) refs of
                                         None \<Rightarrow> None
                                       | Some messageIndex \<Rightarrow>
                                           (case cell_at h2 (refs ! messageIndex) of
                                              Some (MessageObj ob') \<Rightarrow>
                                                (case o_edits ob' of
                                                   None \<Rightarrow> None
                                                 | Some editsRef' \<Rightarrow>
                                                     (case cell_at h2 editsRef' of
                                                        Some (EditArray erefs') \<Rightarrow>
                                                          (case alloc h2 (EditArray (erefs' @ [newEdit])) of
                                                             (newEdits, h3) \<Rightarrow>
                                                           (case alloc h3 (MessageObj
                                                                   (ob'\<lparr>o_edits := Some newEdits\<rparr>)) of
                                                             (updatedMessage', h4) \<Rightarrow>
                                                               Some (array_set h4 updatedMessages
                                                                       messageIndex updatedMessage',
                                                                     updatedMessages)))
                                                      | _ \<Rightarrow> None))
                                            | _ \<Rightarrow> None))))
                                 | _ \<Rightarrow> None)
                          | _ \<Rightarrow> None))
                | _ \<Rightarrow> None))
      | _ \<Rightarrow> None)"

section \<open>Reading the record of calls\<close>

text \<open>The identifier promotions among the calls of the session context: the old id and
  the new thread of every \<^verbatim>\<open>convertTemporarySession\<close>, in order.\<close>

fun conversions :: "'x context_call list \<Rightarrow> (string \<times> new_thread) list" where
  "conversions [] = []"
| "conversions (ConvertTemporarySession oldId newThread # cs) = (oldId, newThread) # conversions cs"
| "conversions (AddMessage text isUser model # cs) = conversions cs"
| "conversions (UpdateSessionModel threadId model newMessages # cs) = conversions cs"

section \<open>A concrete setting\<close>

text \<open>
  A backend that counts its requests and answers every one, a simulator that streams
  three chunks, and a session with one legacy message and one message with an edit
  history. In \<open>offline_env\<close> every request is rejected and the simulator reports an
  error after two chunks.
\<close>

definition example_conversation :: "unit message list" where
  "example_conversation =
     [\<lparr>msg_id = ''msg_1'',
       edits = Some [\<lparr>edit_id = ''edit_1'', edit_model_name = ''qwen3:0.6b'',
                      edit_timestamp = ''2024-05-01T10:00:00.000Z'',
                      edit_question = ''Hi'', edit_answer = ''Hello!''\<rparr>],
       question = None, answer = None, model_name = None, other = ()\<rparr>]"

definition example_env :: "(nat, unit message list, unit) env" where
  "example_env =
     \<lparr>createThread = (\<lambda>b. (Inr \<lparr>thread_id = ''thread_7''\<rparr>, Suc b)),
      createMessage = (\<lambda>t q a m b. (Inr (), Suc b)),
      createMessageEdit = (\<lambda>i q a m b. (Inr (), Suc b)),
      getConversation = (\<lambda>t b. (Inr example_conversation, Suc b)),
      transformConversation = (\<lambda>c. c),
      sendMessage = (\<lambda>q m c t.
         \<lparr>chunks = [''Hel'', ''lo, '', ''world''], final = OnComplete ''Hello, world''\<rparr>),
      newMessage = (\<lambda>s text isUser model.
         \<lparr>msg_id = ''local_'' @ show_nat (length (messages s)), edits = None,
          question = (if isUser then Some text else None),
          answer = (if isUser then None else Some text),
          model_name = model, other = ()\<rparr>),
      now = ''2024-05-01T12:00:00.000Z''\<rparr>"

definition offline_env :: "(nat, unit message list, unit) env" where
  "offline_env = example_env
     \<lparr>createThread := (\<lambda>b. (Inl (Rejected ''Failed to fetch''), Suc b)),
      createMessage := (\<lambda>t q a m b. (Inl (Rejected ''Failed to fetch''), Suc b)),
      createMessageEdit := (\<lambda>i q a m b. (Inl (Rejected ''Failed to fetch''), Suc b)),
      getConversation := (\<lambda>t b. (Inl (Rejected ''Failed to fetch''), Suc b)),
      sendMessage := (\<lambda>q m c t.
         \<lparr>chunks = [''Hel'', ''lo, ''], final = OnError (Rejected ''stream broke'')\<rparr>)\<rparr>"

definition legacy_message :: "unit message" where
  "legacy_message =
     \<lparr>msg_id = ''msg_a'', edits = None, question = Some ''What is 2+2?'',
      answer = Some ''4'', model_name = Some ''tinyllama:latest'', other = ()\<rparr>"

definition first_edit :: edit where
  "first_edit =
     \<lparr>edit_id = ''edit_b1'', edit_model_name = ''tinyllama:latest'',
      edit_timestamp = ''2024-05-01T09:00:00.000Z'',
      edit_question = ''What is 2+2?'', edit_answer = ''2+2 is 4.''\<rparr>"

definition branching_message :: "unit message" where
  "branching_message =
     \<lparr>msg_id = ''msg_b'', edits = Some [first_edit], question = None,
      answer = None, model_name = None, other = ()\<rparr>"

definition example_session :: "unit session" where
  "example_session =
     \<lparr>session_id = ''temp_1'', isTemporary = True, modelName = ''tinyllama:latest'',
      messages = [legacy_message, branching_message]\<rparr>"

definition example_state :: "unit chat_area" where
  "example_state =
     \<lparr>currentSession = example_session, isLoading = False, selectedModel = ''qwen3:0.6b'',
      uploadedFiles = [], useContext = True, streamingMessage = [], apiMode = True,
      editingMessageId = None, editingMessageText = []\<rparr>"

text \<open>The same state while the message with the given id is being edited.\<close>

definition editing_state :: "bool \<Rightarrow> string \<Rightarrow> unit chat_area" where
  "editing_state api messageId =
     example_state\<lparr>apiMode := api, editingMessageId := Some messageId,
                   editingMessageText := ''What is 2+2?''\<rparr>"

definition example_world :: "(nat, unit) world" where
  "example_world = \<lparr>backend = 0, calls = [], context_calls = [], console_errors = []\<rparr>"

text \<open>A mock-mode send of "Hi" after its first chunk, while the legacy message is being
  edited: the exchange is in flight.\<close>

definition streaming_state :: "unit chat_area \<times> (nat, unit) world" where
  "streaming_state =
     (case beginSend example_env ''Hi'' (editing_state False ''msg_a'', example_world) of
        (st, w) \<Rightarrow> (deliverChunks st [''Hel''], w))"

text \<open>The messages of the session as cells of a store: the legacy message at address 0,
  the edit, the edits array and the message that has it at 1, 2 and 3, and the list of
  the two messages at 4.\<close>

definition example_store :: "unit store" where
  "example_store =
     [MessageObj \<lparr>o_id = ''msg_a'', o_edits = None, o_question = Some ''What is 2+2?'',
                  o_answer = Some ''4'', o_model_name = Some ''tinyllama:latest'', o_other = ()\<rparr>,
      EditObj first_edit,
      EditArray [1],
      MessageObj \<lparr>o_id = ''msg_b'', o_edits = Some 2, o_question = None,
                  o_answer = None, o_model_name = None, o_other = ()\<rparr>,
      MessageArray [0, 3]]"

section \<open>Auxiliary facts\<close>

lemma dropWhile_Nil_all: "dropWhile P xs = [] \<longleftrightarrow> list_all P xs"
  by (induction xs) auto

lemma trim_empty_iff: "trim s = [] \<longleftrightarrow> list_all js_whitespace s"
proof
  assume "trim s = []"
  then have "\<forall>x\<in>set (dropWhile js_whitespace s). js_whitespace x"
    by (simp add: trim_def)
  then have "dropWhile js_whitespace s = []"
    by (metis hd_dropWhile list.set_sel(1))
  then show "list_all js_whitespace s"
    by (simp only: dropWhile_Nil_all)
next
  assume "list_all js_whitespace s"
  then have "dropWhile js_whitespace s = []"
    by (simp only: dropWhile_Nil_all)
  then show "trim s = []"
    by (simp only: trim_def rev.simps dropWhile.simps)
qed

lemma conversions_append [simp]:
  "conversions (xs @ ys) = conversions xs @ conversions ys"
  by (induction xs rule: conversions.induct) simp_all

lemma findIndex_find:
  "find P xs = Some m \<Longrightarrow> \<exists>i. findIndex P xs = Some i \<and> i < length xs \<and> xs ! i = m"
  by (induction xs) (auto split: if_splits)

lemma deliverChunks_text:
  "streamingMessage (deliverChunks st cks) = streamingMessage st @ concat cks"
  unfolding deliverChunks_def
  by (induction cks arbitrary: st) (simp_all add: onChunk_def)

lemma deliverChunks_eq:
  "deliverChunks st cks = st\<lparr>streamingMessage := streamingMessage st @ concat cks\<rparr>"
  unfolding deliverChunks_def
  by (induction cks arbitrary: st) (simp_all add: onChunk_def)

lemma deliverChunks_frame:
  "currentSession (deliverChunks st cks) = currentSession st"
  "isLoading (deliverChunks st cks) = isLoading st"
  "selectedModel (deliverChunks st cks) = selectedModel st"
  unfolding deliverChunks_def
  by (induction cks arbitrary: st) (simp_all add: onChunk_def)

lemmas context_defs =
  call_addMessage_def call_updateSessionModel_def call_convertTemporarySession_def
  addMessage_def updateSessionModel_def convertTemporarySession_def

lemmas send_defs =
  handleSendMessage_def beginSend_def awaitAddMessage_def sendApi_def sendTry_def ensureThread_def
  call_createThread_def call_createMessage_def call_getConversation_def
  context_defs

lemmas mock_defs =
  sendMock_def onComplete_def onError_def deliverChunks_frame

text \<open>The \<^verbatim>\<open>try\<close> block of the backend branch throws exactly when one of its backend
  calls is rejected.\<close>

lemma sendTry_throws_iff:
  "fst (sendTry env message cs model (st, w)) = Inl e \<longleftrightarrow>
     (case ensureThread env cs (st, w) of
        (Inl e', st1, w1) \<Rightarrow> e' = e
      | (Inr threadId, st1, w1) \<Rightarrow>
          (case createMessage env threadId message (simulatedResponse message model) model
                  (backend w1) of
             (Inl e', b2) \<Rightarrow> e' = e
           | (Inr u, b2) \<Rightarrow> fst (getConversation env threadId b2) = Inl e))"
  by (auto simp: sendTry_def call_createMessage_def call_getConversation_def
      split: prod.splits sum.splits)

text \<open>From line 63 on, and through the delivery of the chunks, the loading flag is set
  as long as no other handler runs. It is not set while the handler waits at line 60.\<close>

lemma loading_set_from_line_63:
  "isLoading (fst (beginSend env message (st, w)))
   \<and> isLoading (deliverChunks (fst (beginSend env message (st, w))) cks)"
  by (simp add: beginSend_def awaitAddMessage_def call_addMessage_def deliverChunks_frame)

text \<open>Every exchange that starts ends with the loading flag and the partial text
  cleared.\<close>

lemma send_always_idle:
  assumes "trim message \<noteq> []" "\<not> isLoading st"
    and "handleSendMessage env message (st, w) = (st', w')"
  shows "\<not> isLoading st' \<and> streamingMessage st' = []"
  using assms
  by (auto simp: send_defs mock_defs Let_def
      split: prod.splits sum.splits if_splits sim_result.splits option.splits)

lemmas submit_defs =
  handleSubmitEdit_def submitTry_def call_createMessageEdit_def call_getConversation_def
  call_updateSessionModel_def updateSessionModel_def latestEdit_def

text \<open>\<^verbatim>\<open>findIndex\<close> gives the first position that passes the test.\<close>

lemma findIndex_first:
  "findIndex P xs = Some i \<Longrightarrow> i < length xs \<and> P (xs ! i) \<and> (\<forall>j<i. \<not> P (xs ! j))"
proof (induction xs arbitrary: i)
  case Nil
  then show ?case by simp
next
  case (Cons x xs)
  show ?case
  proof (cases "P x")
    case True
    with Cons.prems show ?thesis by simp
  next
    case False
    with Cons.prems obtain k where k: "findIndex P xs = Some k" "i = Suc k"
      by (auto split: option.splits)
    from Cons.IH [OF k(1)] False k(2) show ?thesis
      by (auto simp: less_Suc_eq_0_disj)
  qed
qed

text \<open>What an edit in mock mode leaves behind: on a message with an edit history, and on
  a legacy message.\<close>

lemma mock_edit_result:
  assumes ed: "editingMessageId st = Some eid" "eid \<noteq> []"
    and text_ok: "trim updatedMessage \<noteq> []"
    and fnd: "find (\<lambda>msg. msg_id msg = eid) (messages (currentSession st)) = Some m"
    and mock: "\<not> apiMode st"
    and es: "edits m = Some es" "es \<noteq> []"
  shows "\<exists>i. findIndex (\<lambda>msg. msg_id msg = eid) (messages (currentSession st)) = Some i
           \<and> i < length (messages (currentSession st))
           \<and> messages (currentSession st) ! i = m
           \<and> handleSubmitEdit env updatedMessage (st, w) =
               (st\<lparr>currentSession := (currentSession st)
                     \<lparr>modelName := selectedModel st,
                      messages := (messages (currentSession st))[i := m
                        \<lparr>edits := Some (es @
                           [\<lparr>edit_id = ''mock_edit_'' @ show_nat (length es + 1),
                             edit_model_name = selectedModel st,
                             edit_timestamp = now env,
                             edit_question = updatedMessage,
                             edit_answer = edit_answer (last es)\<rparr>])\<rparr>]\<rparr>,
                   editingMessageId := None, editingMessageText := [], isLoading := False\<rparr>,
                w\<lparr>context_calls := context_calls w @
                   [UpdateSessionModel (session_id (currentSession st)) (selectedModel st)
                      ((messages (currentSession st))[i := m
                        \<lparr>edits := Some (es @
                           [\<lparr>edit_id = ''mock_edit_'' @ show_nat (length es + 1),
                             edit_model_name = selectedModel st,
                             edit_timestamp = now env,
                             edit_question = updatedMessage,
                             edit_answer = edit_answer (last es)\<rparr>])\<rparr>])]\<rparr>)"
proof -
  from findIndex_find [OF fnd] obtain i where
    i: "findIndex (\<lambda>msg. msg_id msg = eid) (messages (currentSession st)) = Some i"
       "i < length (messages (currentSession st))" "messages (currentSession st) ! i = m"
    by blast
  have "handleSubmitEdit env updatedMessage (st, w) =
               (st\<lparr>currentSession := (currentSession st)
                     \<lparr>modelName := selectedModel st,
                      messages := (messages (currentSession st))[i := m
                        \<lparr>edits := Some (es @
                           [\<lparr>edit_id = ''mock_edit_'' @ show_nat (length es + 1),
                             edit_model_name = selectedModel st,
                             edit_timestamp = now env,
                             edit_question = updatedMessage,
                             edit_answer = edit_answer (last es)\<rparr>])\<rparr>]\<rparr>,
                   editingMessageId := None, editingMessageText := [], isLoading := False\<rparr>,
                w\<lparr>context_calls := context_calls w @
                   [UpdateSessionModel (session_id (currentSession st)) (selectedModel st)
                      ((messages (currentSession st))[i := m
                        \<lparr>edits := Some (es @
                           [\<lparr>edit_id = ''mock_edit_'' @ show_nat (length es + 1),
                             edit_model_name = selectedModel st,
                             edit_timestamp = now env,
                             edit_question = updatedMessage,
                             edit_answer = edit_answer (last es)\<rparr>])\<rparr>])]\<rparr>)"
    using ed text_ok fnd mock es i
    by (simp add: submit_defs Let_def last_conv_nth)
  with i show ?thesis by blast
qed

lemma mock_legacy_result:
  assumes ed: "editingMessageId st = Some eid" "eid \<noteq> []"
    and text_ok: "trim updatedMessage \<noteq> []"
    and fnd: "find (\<lambda>msg. msg_id msg = eid) (messages (currentSession st)) = Some m"
    and mock: "\<not> apiMode st"
    and es: "edits m = None"
  shows "\<exists>i. findIndex (\<lambda>msg. msg_id msg = eid) (messages (currentSession st)) = Some i
           \<and> i < length (messages (currentSession st))
           \<and> messages (currentSession st) ! i = m
           \<and> handleSubmitEdit env updatedMessage (st, w) =
               (st\<lparr>currentSession := (currentSession st)
                     \<lparr>modelName := selectedModel st,
                      messages := (messages (currentSession st))[i := m
                        \<lparr>question := Some updatedMessage\<rparr>]\<rparr>,
                   editingMessageId := None, editingMessageText := [], isLoading := False\<rparr>,
                w\<lparr>context_calls := context_calls w @
                   [UpdateSessionModel (session_id (currentSession st)) (selectedModel st)
                      ((messages (currentSession st))[i := m
                        \<lparr>question := Some updatedMessage\<rparr>])]\<rparr>)"
proof -
  from findIndex_find [OF fnd] obtain i where
    i: "findIndex (\<lambda>msg. msg_id msg = eid) (messages (currentSession st)) = Some i"
       "i < length (messages (currentSession st))" "messages (currentSession st) ! i = m"
    by blast
  have "handleSubmitEdit env updatedMessage (st, w) =
               (st\<lparr>currentSession := (currentSession st)
                     \<lparr>modelName := selectedModel st,
                      messages := (messages (currentSession st))[i := m
                        \<lparr>question := Some updatedMessage\<rparr>]\<rparr>,
                   editingMessageId := None, editingMessageText := [], isLoading := False\<rparr>,
                w\<lparr>context_calls := context_calls w @
                   [UpdateSessionModel (session_id (currentSession st)) (selectedModel st)
                      ((messages (currentSession st))[i := m
                        \<lparr>question := Some updatedMessage\<rparr>])]\<rparr>)"
    using ed text_ok fnd mock es i
    by (simp add: submit_defs Let_def)
  with i show ?thesis by blast
qed

text \<open>What a completed exchange in mock mode leaves behind when the last message of the
  session the handler closed over has an edit history.\<close>

lemma mock_send_appends_edit:
  assumes guard: "trim message \<noteq> []" "\<not> isLoading st"
    and mock: "\<not> apiMode st"
    and fin: "final (sendMessage env message (selectedModel st)
                (useContext st \<and> uploadedFiles st \<noteq> []) (session_id (currentSession st)))
              = OnComplete fullResponse"
    and ne: "messages (currentSession st) \<noteq> []"
    and es: "edits (last (messages (currentSession st))) = Some es"
  shows "handleSendMessage env message (st, w) =
           (st\<lparr>currentSession := (currentSession st)
                 \<lparr>modelName := selectedModel st,
                  messages := (messages (currentSession st))
                    [length (messages (currentSession st)) - 1 :=
                       (last (messages (currentSession st)))
                         \<lparr>edits := Some (es @
                            [\<lparr>edit_id = ''mock_edit_'' @ show_nat (length es + 1),
                              edit_model_name = selectedModel st,
                              edit_timestamp = now env,
                              edit_question = message,
                              edit_answer = fullResponse\<rparr>])\<rparr>]\<rparr>,
               isLoading := False, streamingMessage := []\<rparr>,
            w\<lparr>context_calls := context_calls w @
               [AddMessage message True None,
                UpdateSessionModel (session_id (currentSession st)) (selectedModel st)
                  ((messages (currentSession st))
                    [length (messages (currentSession st)) - 1 :=
                       (last (messages (currentSession st)))
                         \<lparr>edits := Some (es @
                            [\<lparr>edit_id = ''mock_edit_'' @ show_nat (length es + 1),
                              edit_model_name = selectedModel st,
                              edit_timestamp = now env,
                              edit_question = message,
                              edit_answer = fullResponse\<rparr>])\<rparr>])]\<rparr>)"
  using assms
  by (simp add: send_defs sendMock_def onComplete_def deliverChunks_eq Let_def last_conv_nth)

text \<open>When \<^verbatim>\<open>createThread\<close> itself is rejected there is no backend-assigned id: the call
  was made once, the thread keeps its id and stays temporary, and the exchange ends
  with the fallback message.\<close>

lemma createThread_rejected_keeps_temporary:
  assumes "trim message \<noteq> []" "\<not> isLoading st" "apiMode st"
    and "isTemporary (currentSession st)"
    and "createThread env (backend w) = (Inl e, b1)"
    and "handleSendMessage env message (st, w) = (st', w')"
  shows "session_id (currentSession st') = session_id (currentSession st)
         \<and> isTemporary (currentSession st')
         \<and> calls w' = calls w @ [CreateThread]
         \<and> context_calls w' = context_calls w
             @ [AddMessage message True None,
                AddMessage fallbackText False (Some (selectedModel st))]
         \<and> console_errors w' = console_errors w @ [e]"
  using assms
  by (auto simp: send_defs Let_def split: prod.splits sum.splits)

text \<open>In backend mode a submitted edit of a legacy message makes no call and writes no
  field: the branch of lines 233-253 is the only one there. The editing state is
  cleared all the same.\<close>

lemma backend_legacy_edit_result:
  assumes "editingMessageId st = Some eid" "eid \<noteq> []"
    and "trim updatedMessage \<noteq> []"
    and "find (\<lambda>msg. msg_id msg = eid) (messages (currentSession st)) = Some m"
    and "apiMode st"
    and "edits m = None"
  shows "handleSubmitEdit env updatedMessage (st, w) =
           (st\<lparr>editingMessageId := None, editingMessageText := [], isLoading := False\<rparr>, w)"
  using assms
  by (simp add: handleSubmitEdit_def submitTry_def)

text \<open>The store: cells that exist stay where they are when cells are added, and what
  was read before is read again.\<close>

lemma cell_at_lt: "cell_at h a = Some c \<Longrightarrow> a < length h"
  by (simp add: cell_at_def split: if_splits)

lemma cell_at_append_old: "a < length h \<Longrightarrow> cell_at (h @ ext) a = cell_at h a"
  by (simp add: cell_at_def nth_append)

lemma cell_at_append_new:
  "k < length ext \<Longrightarrow> cell_at (h @ ext) (length h + k) = Some (ext ! k)"
  by (simp add: cell_at_def nth_append)

lemma read_all_iff:
  "read_all f rs = Some xs \<longleftrightarrow>
     length xs = length rs \<and> (\<forall>i<length rs. f (rs ! i) = Some (xs ! i))"
proof (induction rs arbitrary: xs)
  case Nil
  then show ?case by auto
next
  case (Cons r rs)
  show ?case
  proof (cases xs)
    case Nil
    then show ?thesis by (auto split: option.splits)
  next
    case (Cons y ys)
    then show ?thesis
      using Cons.IH [of ys]
      by (auto simp: less_Suc_eq_0_disj split: option.splits)
  qed
qed

lemma read_edit_lt: "read_edit h a = Some e \<Longrightarrow> a < length h"
  by (auto simp: read_edit_def dest: cell_at_lt split: option.splits cell.splits)

lemma read_edit_append: "read_edit h a = Some e \<Longrightarrow> read_edit (h @ ext) a = Some e"
  using read_edit_lt [of h a e] by (simp add: read_edit_def cell_at_append_old)

lemma read_edits_cells:
  "read_edits h a = Some es \<longleftrightarrow>
     (\<exists>rs. cell_at h a = Some (EditArray rs) \<and> read_all (read_edit h) rs = Some es)"
  by (auto simp: read_edits_def split: option.splits cell.splits)

lemma read_edits_append: "read_edits h a = Some es \<Longrightarrow> read_edits (h @ ext) a = Some es"
proof -
  assume "read_edits h a = Some es"
  then obtain rs where rs: "cell_at h a = Some (EditArray rs)"
      "read_all (read_edit h) rs = Some es"
    by (auto simp: read_edits_cells)
  from rs(1) have "cell_at (h @ ext) a = Some (EditArray rs)"
    using cell_at_lt [OF rs(1)] by (simp add: cell_at_append_old)
  moreover from rs(2) have "read_all (read_edit (h @ ext)) rs = Some es"
    by (simp add: read_all_iff read_edit_append)
  ultimately show ?thesis by (auto simp: read_edits_cells)
qed

lemma read_message_cells:
  "read_message h a = Some m \<longleftrightarrow>
     (\<exists>ob. cell_at h a = Some (MessageObj ob)
        \<and> msg_id m = o_id ob \<and> question m = o_question ob \<and> answer m = o_answer ob
        \<and> model_name m = o_model_name ob \<and> other m = o_other ob
        \<and> (case o_edits ob of
              None \<Rightarrow> edits m = None
            | Some ea \<Rightarrow> (\<exists>es. read_edits h ea = Some es \<and> edits m = Some es)))"
proof (cases "cell_at h a")
  case None
  then show ?thesis by (simp add: read_message_def)
next
  case c: (Some c)
  show ?thesis
  proof (cases c)
    case ob: (MessageObj ob)
    show ?thesis
    proof (cases "o_edits ob")
      case None
      with c ob show ?thesis
        by (cases m) (auto simp: read_message_def)
    next
      case (Some ea)
      with c ob show ?thesis
        by (cases m) (auto simp: read_message_def split: option.splits)
    qed
  next
    case (EditObj e)
    with c show ?thesis by (simp add: read_message_def)
  next
    case (MessageArray rs)
    with c show ?thesis by (simp add: read_message_def)
  next
    case (EditArray rs)
    with c show ?thesis by (simp add: read_message_def)
  qed
qed

lemma read_message_append:
  "read_message h a = Some m \<Longrightarrow> read_message (h @ ext) a = Some m"
proof -
  assume "read_message h a = Some m"
  then obtain ob where ob: "cell_at h a = Some (MessageObj ob)"
      "msg_id m = o_id ob" "question m = o_question ob" "answer m = o_answer ob"
      "model_name m = o_model_name ob" "other m = o_other ob"
      "case o_edits ob of
              None \<Rightarrow> edits m = None
            | Some ea \<Rightarrow> (\<exists>es. read_edits h ea = Some es \<and> edits m = Some es)"
    by (auto simp: read_message_cells)
  from ob(1) have "cell_at (h @ ext) a = Some (MessageObj ob)"
    using cell_at_lt [OF ob(1)] by (simp add: cell_at_append_old)
  moreover from ob(7) have "case o_edits ob of
              None \<Rightarrow> edits m = None
            | Some ea \<Rightarrow> (\<exists>es. read_edits (h @ ext) ea = Some es \<and> edits m = Some es)"
    by (auto split: option.splits dest: read_edits_append)
  ultimately show ?thesis
    using ob(2-6) by (auto simp: read_message_cells)
qed

lemma read_messages_cells:
  "read_messages h a = Some ms \<longleftrightarrow>
     (\<exists>rs. cell_at h a = Some (MessageArray rs) \<and> read_all (read_message h) rs = Some ms)"
  by (auto simp: read_messages_def split: option.splits cell.splits)

lemma read_messages_append:
  "read_messages h a = Some ms \<Longrightarrow> read_messages (h @ ext) a = Some ms"
proof -
  assume "read_messages h a = Some ms"
  then obtain rs where rs: "cell_at h a = Some (MessageArray rs)"
      "read_all (read_message h) rs = Some ms"
    by (auto simp: read_messages_cells)
  from rs(1) have "cell_at (h @ ext) a = Some (MessageArray rs)"
    using cell_at_lt [OF rs(1)] by (simp add: cell_at_append_old)
  moreover from rs(2) have "read_all (read_message (h @ ext)) rs = Some ms"
    by (simp add: read_all_iff read_message_append)
  ultimately show ?thesis by (auto simp: read_messages_cells)
qed

lemma has_id_read: "read_message h r = Some m \<Longrightarrow> has_id h eid r = (msg_id m = eid)"
  by (auto simp: has_id_def read_message_cells)

lemma has_id_append: "r < length h \<Longrightarrow> has_id (h @ ext) eid r = has_id h eid r"
  by (simp add: has_id_def cell_at_append_old)

lemma findIndex_cong:
  "(\<And>x. x \<in> set xs \<Longrightarrow> P x = Q x) \<Longrightarrow> findIndex P xs = findIndex Q xs"
  by (induction xs) auto

lemma findIndex_refs:
  "read_all (read_message h) rs = Some ms \<Longrightarrow>
     findIndex (has_id h eid) rs = findIndex (\<lambda>msg. msg_id msg = eid) ms"
proof (induction rs arbitrary: ms)
  case Nil
  then show ?case by auto
next
  case (Cons r rs)
  then obtain m ms' where ms: "ms = m # ms'" "read_message h r = Some m"
      "read_all (read_message h) rs = Some ms'"
    by (auto split: option.splits)
  from Cons.IH [OF ms(3)] has_id_read [OF ms(2), of eid] show ?case
    by (simp add: ms(1))
qed

lemma find_findIndex: "findIndex P xs = Some i \<Longrightarrow> find P xs = Some (xs ! i)"
  by (induction xs arbitrary: i) (auto split: if_splits option.splits)


lemma read_new_list:
  assumes all: "read_all (read_message h) refs = Some msgs"
    and i: "i < length refs"
    and ob: "cell_at h (refs ! i) = Some (MessageObj ob)" "o_edits ob = Some er"
    and er: "cell_at h er = Some (EditArray erefs)" "read_all (read_edit h) erefs = Some es"
    and ne: "cell_at (h @ ext) newEdit = Some (EditObj ne)"
    and na: "cell_at (h @ ext) newEdits = Some (EditArray (erefs @ [newEdit]))"
    and nm: "cell_at (h @ ext) updatedMessage = Some (MessageObj (ob\<lparr>o_edits := Some newEdits\<rparr>))"
    and arr: "cell_at (h @ ext) updatedMessages = Some (MessageArray (refs[i := updatedMessage]))"
  shows "read_messages (h @ ext) updatedMessages
           = Some (msgs[i := (msgs ! i)\<lparr>edits := Some (es @ [ne])\<rparr>])"
proof -
  from all have len: "length msgs = length refs"
    and each: "\<And>j. j < length refs \<Longrightarrow> read_message h (refs ! j) = Some (msgs ! j)"
    by (simp_all add: read_all_iff)
  from er(2) have elen: "length es = length erefs"
    and eeach: "\<And>j. j < length erefs \<Longrightarrow> read_edit h (erefs ! j) = Some (es ! j)"
    by (simp_all add: read_all_iff)
  have "read_all (read_edit (h @ ext)) (erefs @ [newEdit]) = Some (es @ [ne])"
    unfolding read_all_iff
  proof (intro conjI allI impI)
    show "length (es @ [ne]) = length (erefs @ [newEdit])"
      by (simp add: elen)
  next
    fix j assume j: "j < length (erefs @ [newEdit])"
    show "read_edit (h @ ext) ((erefs @ [newEdit]) ! j) = Some ((es @ [ne]) ! j)"
    proof (cases "j < length erefs")
      case True
      then show ?thesis
        by (simp add: nth_append elen eeach read_edit_append)
    next
      case False
      with j have "j = length erefs" by simp
      then show ?thesis
        using ne by (simp add: nth_append elen read_edit_def)
    qed
  qed
  with na have edits': "read_edits (h @ ext) newEdits = Some (es @ [ne])"
    by (auto simp: read_edits_cells)
  from each [OF i] ob have old: "msg_id (msgs ! i) = o_id ob" "question (msgs ! i) = o_question ob"
      "answer (msgs ! i) = o_answer ob" "model_name (msgs ! i) = o_model_name ob"
      "other (msgs ! i) = o_other ob"
    by (auto simp: read_message_cells)
  have new: "read_message (h @ ext) updatedMessage
      = Some ((msgs ! i)\<lparr>edits := Some (es @ [ne])\<rparr>)"
    unfolding read_message_cells
    using nm edits' old by simp
  have "read_all (read_message (h @ ext)) (refs[i := updatedMessage])
      = Some (msgs[i := (msgs ! i)\<lparr>edits := Some (es @ [ne])\<rparr>])"
    unfolding read_all_iff
  proof (intro conjI allI impI)
    show "length (msgs[i := (msgs ! i)\<lparr>edits := Some (es @ [ne])\<rparr>])
        = length (refs[i := updatedMessage])"
      by (simp add: len)
  next
    fix j assume "j < length (refs[i := updatedMessage])"
    then have j: "j < length refs" by simp
    show "read_message (h @ ext) (refs[i := updatedMessage] ! j)
        = Some (msgs[i := (msgs ! i)\<lparr>edits := Some (es @ [ne])\<rparr>] ! j)"
    proof (cases "j = i")
      case True
      with i new show ?thesis by (simp add: len)
    next
      case False
      with j each [OF j] show ?thesis
        by (simp add: len read_message_append)
    qed
  qed
  with arr show ?thesis
    by (auto simp: read_messages_cells)
qed

text \<open>What a reading of a message says of the cells.\<close>

lemma message_with_edits_cells:
  assumes "read_message h r = Some m" "edits m = Some es"
  shows "\<exists>ob er erefs. cell_at h r = Some (MessageObj ob) \<and> o_edits ob = Some er
           \<and> cell_at h er = Some (EditArray erefs)
           \<and> read_all (read_edit h) erefs = Some es"
  using assms
  by (auto simp: read_message_cells read_edits_cells split: option.splits)

lemma read_edit_cell: "read_edit h a = Some e \<longleftrightarrow> cell_at h a = Some (EditObj e)"
  by (auto simp: read_edit_def split: option.splits cell.splits)

lemma completeEditsBranch_cells:
  assumes arr: "cell_at h messagesRef = Some (MessageArray refs)" "refs \<noteq> []"
    and ob: "cell_at h (refs ! (length refs - 1)) = Some (MessageObj ob)" "o_edits ob = Some er"
    and er: "cell_at h er = Some (EditArray erefs)"
  shows "completeEditsBranch h messagesRef message model timestamp fullResponse =
           Some (h @ [EditObj \<lparr>edit_id = ''mock_edit_'' @ show_nat (length erefs + 1),
                               edit_model_name = model,
                               edit_timestamp = timestamp,
                               edit_question = message,
                               edit_answer = fullResponse\<rparr>,
                      EditArray (erefs @ [length h]),
                      MessageObj (ob\<lparr>o_edits := Some (length h + 1)\<rparr>),
                      MessageArray (refs[length refs - 1 := length h + 2])],
                 length h + 3)"
  using assms
  by (simp add: completeEditsBranch_def alloc_def array_set_def Let_def cell_at_def
      nth_append list_update_append)

lemma submitEditsBranch_cells:
  assumes arr: "cell_at h messagesRef = Some (MessageArray refs)"
    and inside: "\<And>r. r \<in> set refs \<Longrightarrow> r < length h"
    and idx: "findIndex (has_id h eid) refs = Some i"
    and ob: "cell_at h (refs ! i) = Some (MessageObj ob)" "o_edits ob = Some er"
    and er: "cell_at h er = Some (EditArray erefs)" "erefs \<noteq> []"
    and latest: "cell_at h (erefs ! (length erefs - 1)) = Some (EditObj latest)"
  shows "submitEditsBranch h messagesRef eid updatedMessage model timestamp =
           Some (h @ [EditObj \<lparr>edit_id = ''mock_edit_'' @ show_nat (length erefs + 1),
                               edit_model_name = model,
                               edit_timestamp = timestamp,
                               edit_question = updatedMessage,
                               edit_answer = edit_answer latest\<rparr>,
                      MessageArray (refs[i := length h + 3]),
                      EditArray (erefs @ [length h]),
                      MessageObj (ob\<lparr>o_edits := Some (length h + 2)\<rparr>)],
                 length h + 1)"
proof -
  have fnd: "find (has_id h eid) refs = Some (refs ! i)"
    using idx by (rule find_findIndex)
  have idx': "findIndex (has_id (h @ ext) eid) refs = Some i" for ext
    using idx findIndex_cong [of refs "has_id (h @ ext) eid" "has_id h eid"] inside
    by (simp add: has_id_append)
  have old: "cell_at (h @ ext) (refs ! i) = Some (MessageObj ob)"
      "cell_at (h @ ext) er = Some (EditArray erefs)" for ext
    using ob(1) er(1) cell_at_lt [OF ob(1)] cell_at_lt [OF er(1)]
    by (simp_all add: cell_at_append_old)
  show ?thesis
    unfolding submitEditsBranch_def
    using arr fnd ob er latest
    by (simp add: alloc_def idx' old array_set_def cell_at_append_new [of 1, simplified]
        list_update_append eval_nat_numeral)
qed


lemma completeEditsBranch_copy:
  assumes rep: "read_messages h messagesRef = Some msgs"
    and ne: "msgs \<noteq> []"
    and es: "edits (last msgs) = Some es"
  shows "\<exists>h' updatedMessages.
           completeEditsBranch h messagesRef message model timestamp fullResponse
             = Some (h', updatedMessages)
           \<and> take (length h) h' = h
           \<and> length h \<le> updatedMessages
           \<and> read_messages h' messagesRef = Some msgs
           \<and> read_messages h' updatedMessages
               = Some (msgs[length msgs - 1 := (last msgs)
                    \<lparr>edits := Some (es @
                       [\<lparr>edit_id = ''mock_edit_'' @ show_nat (length es + 1),
                         edit_model_name = model,
                         edit_timestamp = timestamp,
                         edit_question = message,
                         edit_answer = fullResponse\<rparr>])\<rparr>])"
proof -
  from rep obtain refs where refs: "cell_at h messagesRef = Some (MessageArray refs)"
      "read_all (read_message h) refs = Some msgs"
    by (auto simp: read_messages_cells)
  from refs(2) have len: "length msgs = length refs"
    and each: "\<And>j. j < length refs \<Longrightarrow> read_message h (refs ! j) = Some (msgs ! j)"
    by (simp_all add: read_all_iff)
  from ne len have nonempty: "refs \<noteq> []"
    by auto
  then have i: "length refs - 1 < length refs"
    by (cases refs) simp_all
  from ne have lst: "last msgs = msgs ! (length refs - 1)"
    by (simp add: last_conv_nth len)
  from each [OF i] lst have "read_message h (refs ! (length refs - 1)) = Some (last msgs)"
    by simp
  from message_with_edits_cells [OF this es] obtain ob er erefs where
    ob: "cell_at h (refs ! (length refs - 1)) = Some (MessageObj ob)" "o_edits ob = Some er"
    and er: "cell_at h er = Some (EditArray erefs)" "read_all (read_edit h) erefs = Some es"
    by blast
  from er(2) have elen: "length erefs = length es"
    by (simp add: read_all_iff)
  let ?ne = "\<lparr>edit_id = ''mock_edit_'' @ show_nat (length es + 1),
               edit_model_name = model,
               edit_timestamp = timestamp,
               edit_question = message,
               edit_answer = fullResponse\<rparr>"
  let ?ext = "[EditObj ?ne,
               EditArray (erefs @ [length h]),
               MessageObj (ob\<lparr>o_edits := Some (length h + 1)\<rparr>),
               MessageArray (refs[length refs - 1 := length h + 2])]"
  have run: "completeEditsBranch h messagesRef message model timestamp fullResponse
      = Some (h @ ?ext, length h + 3)"
    using completeEditsBranch_cells [OF refs(1) nonempty ob er(1), of message model timestamp
        fullResponse]
    by (simp add: elen)
  have c0: "cell_at (h @ ?ext) (length h) = Some (EditObj ?ne)"
    using cell_at_append_new [of 0 ?ext h] by simp
  have c1: "cell_at (h @ ?ext) (length h + 1) = Some (EditArray (erefs @ [length h]))"
    using cell_at_append_new [of 1 ?ext h] by simp
  have c2: "cell_at (h @ ?ext) (length h + 2)
      = Some (MessageObj (ob\<lparr>o_edits := Some (length h + 1)\<rparr>))"
    using cell_at_append_new [of 2 ?ext h] by simp
  have c3: "cell_at (h @ ?ext) (length h + 3)
      = Some (MessageArray (refs[length refs - 1 := length h + 2]))"
    using cell_at_append_new [of 3 ?ext h] by simp
  have new: "read_messages (h @ ?ext) (length h + 3)
      = Some (msgs[length refs - 1 := (msgs ! (length refs - 1))\<lparr>edits := Some (es @ [?ne])\<rparr>])"
    by (rule read_new_list [OF refs(2) i ob er c0 c1 c2 c3])
  have old: "read_messages (h @ ?ext) messagesRef = Some msgs"
    using rep by (rule read_messages_append)
  show ?thesis
    using run new old by (simp add: lst len)
qed

lemma submitEditsBranch_copy:
  assumes rep: "read_messages h messagesRef = Some msgs"
    and fnd: "find (\<lambda>msg. msg_id msg = eid) msgs = Some m"
    and es: "edits m = Some es" "es \<noteq> []"
  shows "\<exists>h' updatedMessages i.
           submitEditsBranch h messagesRef eid updatedMessage model timestamp
             = Some (h', updatedMessages)
           \<and> take (length h) h' = h
           \<and> length h \<le> updatedMessages
           \<and> read_messages h' messagesRef = Some msgs
           \<and> findIndex (\<lambda>msg. msg_id msg = eid) msgs = Some i
           \<and> read_messages h' updatedMessages
               = Some (msgs[i := m
                    \<lparr>edits := Some (es @
                       [\<lparr>edit_id = ''mock_edit_'' @ show_nat (length es + 1),
                         edit_model_name = model,
                         edit_timestamp = timestamp,
                         edit_question = updatedMessage,
                         edit_answer = edit_answer (last es)\<rparr>])\<rparr>])"
proof -
  from rep obtain refs where refs: "cell_at h messagesRef = Some (MessageArray refs)"
      "read_all (read_message h) refs = Some msgs"
    by (auto simp: read_messages_cells)
  from refs(2) have len: "length msgs = length refs"
    and each: "\<And>j. j < length refs \<Longrightarrow> read_message h (refs ! j) = Some (msgs ! j)"
    by (simp_all add: read_all_iff)
  from findIndex_find [OF fnd] obtain i where
    i: "findIndex (\<lambda>msg. msg_id msg = eid) msgs = Some i" "i < length msgs" "msgs ! i = m"
    by blast
  from i(2) len have ir: "i < length refs" by simp
  have idx: "findIndex (has_id h eid) refs = Some i"
    using findIndex_refs [OF refs(2), of eid] i(1) by simp
  have inside: "r < length h" if "r \<in> set refs" for r
  proof -
    from that obtain j where "j < length refs" "refs ! j = r"
      by (auto simp: in_set_conv_nth)
    with each [of j] show ?thesis
      by (auto simp: read_message_cells dest: cell_at_lt)
  qed
  from each [OF ir] i(3) have "read_message h (refs ! i) = Some m"
    by simp
  from message_with_edits_cells [OF this es(1)] obtain ob er erefs where
    ob: "cell_at h (refs ! i) = Some (MessageObj ob)" "o_edits ob = Some er"
    and er: "cell_at h er = Some (EditArray erefs)" "read_all (read_edit h) erefs = Some es"
    by blast
  from er(2) have elen: "length erefs = length es"
    and eeach: "\<And>j. j < length erefs \<Longrightarrow> read_edit h (erefs ! j) = Some (es ! j)"
    by (simp_all add: read_all_iff)
  from es(2) elen have enonempty: "erefs \<noteq> []"
    by auto
  then have el: "length erefs - 1 < length erefs"
    by (cases erefs) simp_all
  from eeach [OF el] es(2) have latest:
    "cell_at h (erefs ! (length erefs - 1)) = Some (EditObj (last es))"
    by (simp add: read_edit_cell last_conv_nth elen)
  let ?ne = "\<lparr>edit_id = ''mock_edit_'' @ show_nat (length es + 1),
               edit_model_name = model,
               edit_timestamp = timestamp,
               edit_question = updatedMessage,
               edit_answer = edit_answer (last es)\<rparr>"
  let ?ext = "[EditObj ?ne,
               MessageArray (refs[i := length h + 3]),
               EditArray (erefs @ [length h]),
               MessageObj (ob\<lparr>o_edits := Some (length h + 2)\<rparr>)]"
  have run: "submitEditsBranch h messagesRef eid updatedMessage model timestamp
      = Some (h @ ?ext, length h + 1)"
    using submitEditsBranch_cells [OF refs(1) inside idx ob er(1) enonempty latest,
        of updatedMessage model timestamp]
    by (simp add: elen)
  have c0: "cell_at (h @ ?ext) (length h) = Some (EditObj ?ne)"
    using cell_at_append_new [of 0 ?ext h] by simp
  have c1: "cell_at (h @ ?ext) (length h + 1) = Some (MessageArray (refs[i := length h + 3]))"
    using cell_at_append_new [of 1 ?ext h] by simp
  have c2: "cell_at (h @ ?ext) (length h + 2) = Some (EditArray (erefs @ [length h]))"
    using cell_at_append_new [of 2 ?ext h] by simp
  have c3: "cell_at (h @ ?ext) (length h + 3)
      = Some (MessageObj (ob\<lparr>o_edits := Some (length h + 2)\<rparr>))"
    using cell_at_append_new [of 3 ?ext h] by simp
  have new: "read_messages (h @ ?ext) (length h + 1)
      = Some (msgs[i := (msgs ! i)\<lparr>edits := Some (es @ [?ne])\<rparr>])"
    by (rule read_new_list [OF refs(2) ir ob er c0 c2 c3 c1])
  have old: "read_messages (h @ ?ext) messagesRef = Some msgs"
    using rep by (rule read_messages_append)
  show ?thesis
    using run new old i by simp
qed

text \<open>A write to a cell that existed before does not pass the test that the old store
  is the beginning of the new one.\<close>

lemma in_place_write_is_seen:
  "a < length h \<Longrightarrow> c \<noteq> h ! a \<Longrightarrow> take (length h) (h[a := c] @ ext) \<noteq> h"
  by (metis append_eq_conv_conj length_list_update nth_list_update_eq)

lemmas example_defs =
  example_env_def offline_env_def example_state_def example_world_def example_session_def
  legacy_message_def branching_message_def first_edit_def example_conversation_def
  editing_state_def

lemmas store_defs =
  read_messages_def read_message_def read_edits_def read_edit_def cell_at_def

lemma trim_Hi: "trim ''Hi'' = ''Hi''"
  by (simp add: trim_def js_whitespace_def)

lemma trim_question: "trim ''What is 3+3?'' = ''What is 3+3?''"
  by (simp add: trim_def js_whitespace_def)

text \<open>The message found by the id being edited, in the concrete setting.\<close>

lemma editing_found_b:
  "find (\<lambda>msg. msg_id msg = ''msg_b'') (messages (currentSession (editing_state api ''msg_b'')))
     = Some branching_message"
  by (simp add: example_defs)

lemma editing_found_a:
  "find (\<lambda>msg. msg_id msg = ''msg_a'') (messages (currentSession (editing_state api ''msg_a'')))
     = Some legacy_message"
  by (simp add: example_defs)

section \<open>Sending\<close>

text \<open>
  The guard of line 57. A send whose question is empty or consists of white space only
  (of the characters of this theory's strings), or that is made while the loading flag
  is set, does nothing: the component's state, with the thread and its message list,
  and the world (no call, nothing printed) are what they were.
\<close>

lemma send_rejected_is_noop:
  "list_all js_whitespace message \<or> isLoading st \<Longrightarrow>
     handleSendMessage env message (st, w) = (st, w)"
  by (auto simp: handleSendMessage_def trim_empty_iff)

lemma send_rejected_is_noop_example:
  "list_all js_whitespace '' '' \<and>
   handleSendMessage example_env '' '' (example_state, example_world)
     = (example_state, example_world) \<and>
   isLoading (example_state\<lparr>isLoading := True\<rparr>) \<and>
   handleSendMessage example_env ''Hi'' (example_state\<lparr>isLoading := True\<rparr>, example_world)
     = (example_state\<lparr>isLoading := True\<rparr>, example_world)"
proof -
  have ws: "list_all js_whitespace '' ''"
    by (simp add: js_whitespace_def)
  have ld: "isLoading (example_state\<lparr>isLoading := True\<rparr>)"
    by simp
  show ?thesis
    using ws ld
      send_rejected_is_noop [of "'' ''" example_state example_env example_world]
      send_rejected_is_noop [of "''Hi''" "example_state\<lparr>isLoading := True\<rparr>"
        example_env example_world]
    by simp
qed


text \<open>
  A second way to the same failure: while a mock-mode send is streaming, a submitted
  edit ends with \<^verbatim>\<open>setIsLoading(false)\<close> (line 299), and the next send passes the guard
  although the first exchange has not completed (its partial text is still there).
\<close>

lemma edit_clears_loading_mid_stream:
  "isLoading (fst streaming_state)
   \<and> streamingMessage (fst streaming_state) = ''Hel''
   \<and> \<not> isLoading (fst (handleSubmitEdit example_env ''What is 3+3?'' streaming_state))
   \<and> streamingMessage (fst (handleSubmitEdit example_env ''What is 3+3?'' streaming_state))
       = ''Hel''
   \<and> context_calls (snd (beginSend example_env ''again''
         (handleSubmitEdit example_env ''What is 3+3?'' streaming_state)))
       = context_calls (snd (handleSubmitEdit example_env ''What is 3+3?'' streaming_state))
         @ [AddMessage ''again'' True None]
   \<and> length (context_calls (snd (handleSendMessage example_env ''again''
         (handleSubmitEdit example_env ''What is 3+3?'' streaming_state))))
       = length (context_calls (snd (handleSubmitEdit example_env ''What is 3+3?''
           streaming_state))) + 2"
proof -
  have trim_again: "trim ''again'' = ''again''"
    by (simp add: trim_def js_whitespace_def)
  have mid: "streaming_state
     = ((editing_state False ''msg_a'')
         \<lparr>currentSession := example_session
            \<lparr>messages := messages example_session
               @ [newMessage example_env example_session ''Hi'' True None]\<rparr>,
          isLoading := True, streamingMessage := ''Hel''\<rparr>,
        example_world\<lparr>context_calls := [AddMessage ''Hi'' True None]\<rparr>)"
    by (simp add: streaming_state_def deliverChunks_eq beginSend_def awaitAddMessage_def
        call_addMessage_def addMessage_def editing_state_def example_state_def example_world_def)
  have a: "isLoading (fst streaming_state)" "streamingMessage (fst streaming_state) = ''Hel''"
    by (simp_all add: mid)
  have found: "find (\<lambda>msg. msg_id msg = ''msg_a'')
      (messages example_session @ [newMessage example_env example_session ''Hi'' True None])
      = Some legacy_message"
    by (simp add: example_session_def legacy_message_def)
  have idx: "findIndex (\<lambda>msg. msg_id msg = ''msg_a'')
      (messages example_session @ [newMessage example_env example_session ''Hi'' True None])
      = Some 0"
    by (simp add: example_session_def legacy_message_def)
  have edited: "handleSubmitEdit example_env ''What is 3+3?'' streaming_state
     = ((editing_state False ''msg_a'')
         \<lparr>currentSession := example_session
            \<lparr>modelName := ''qwen3:0.6b'',
             messages := (messages example_session
               @ [newMessage example_env example_session ''Hi'' True None])
               [0 := legacy_message\<lparr>question := Some ''What is 3+3?''\<rparr>]\<rparr>,
          isLoading := False, streamingMessage := ''Hel'',
          editingMessageId := None, editingMessageText := []\<rparr>,
        example_world\<lparr>context_calls := [AddMessage ''Hi'' True None,
          UpdateSessionModel ''temp_1'' ''qwen3:0.6b''
            ((messages example_session
               @ [newMessage example_env example_session ''Hi'' True None])
               [0 := legacy_message\<lparr>question := Some ''What is 3+3?''\<rparr>])]\<rparr>)"
    unfolding mid
    by (simp add: handleSubmitEdit_def submitTry_def trim_question found idx
        call_updateSessionModel_def updateSessionModel_def editing_state_def example_state_def
        example_world_def legacy_message_def)
       (simp add: example_session_def legacy_message_def)
  have b: "\<not> isLoading (fst (handleSubmitEdit example_env ''What is 3+3?'' streaming_state))"
      "streamingMessage (fst (handleSubmitEdit example_env ''What is 3+3?'' streaming_state))
         = ''Hel''"
    by (simp_all add: edited)
  have c: "context_calls (snd (beginSend example_env ''again''
         (handleSubmitEdit example_env ''What is 3+3?'' streaming_state)))
       = context_calls (snd (handleSubmitEdit example_env ''What is 3+3?'' streaming_state))
         @ [AddMessage ''again'' True None]"
    by (simp add: beginSend_def awaitAddMessage_def call_addMessage_def split: prod.splits)
  have d: "length (context_calls (snd (handleSendMessage example_env ''again''
         (handleSubmitEdit example_env ''What is 3+3?'' streaming_state))))
       = length (context_calls (snd (handleSubmitEdit example_env ''What is 3+3?''
           streaming_state))) + 2"
    unfolding edited
    by (simp add: send_defs mock_defs trim_again Let_def editing_state_def example_state_def
        example_env_def example_world_def example_session_def legacy_message_def
        branching_message_def)
  from a b c d show ?thesis by (intro conjI)
qed

text \<open>
  Claim C7. The partial text accumulated from the chunks the simulator delivers, in
  the order it delivers them, is their concatenation from left to right: an exchange
  starts from the empty text, and each chunk is put at the end of what is there. For
  the chunks "Hel", "lo, ", "world" the text is "Hello, world".
\<close>

theorem chunks_accumulate_in_order:
  "streamingMessage (deliverChunks (fst (beginSend env message (st, w))) cks) = concat cks
   \<and> streamingMessage (deliverChunks st cks) = streamingMessage st @ concat cks
   \<and> streamingMessage (deliverChunks (fst (beginSend env message (st, w)))
         [''Hel'', ''lo, '', ''world'']) = ''Hello, world''"
  by (simp add: deliverChunks_text beginSend_def awaitAddMessage_def call_addMessage_def)

text \<open>
  Claim C1. A send in backend mode on a thread whose temporary flag is set promotes the
  identifier exactly once: \<^verbatim>\<open>createThread\<close> is called once and, with the thread it
  returns, \<^verbatim>\<open>convertTemporarySession\<close> is called once, for the old id and that thread;
  after the exchange the thread's id is the backend-assigned id and the thread is no
  longer temporary; every later backend call of the exchange (\<^verbatim>\<open>createMessage\<close>, then
  \<^verbatim>\<open>getConversation\<close> unless \<^verbatim>\<open>createMessage\<close> was rejected) carries the new id. On a
  thread whose temporary flag is not set, a send, in either mode, makes no call of
  \<^verbatim>\<open>createThread\<close> or \<^verbatim>\<open>convertTemporarySession\<close> and leaves the id as it is.
\<close>

theorem temporary_thread_promoted_once:
  assumes guard: "trim message \<noteq> []" "\<not> isLoading st"
    and res: "handleSendMessage env message (st, w) = (st', w')"
  shows "(apiMode st \<and> isTemporary (currentSession st)
            \<and> createThread env (backend w) = (Inr newThread, b1) \<longrightarrow>
          session_id (currentSession st') = thread_id newThread
          \<and> \<not> isTemporary (currentSession st')
          \<and> conversions (context_calls w')
              = conversions (context_calls w) @ [(session_id (currentSession st), newThread)]
          \<and> (\<exists>rest. calls w' = calls w @ CreateThread # rest
               \<and> (rest = [CreateMessage (thread_id newThread) message
                             (simulatedResponse message (selectedModel st)) (selectedModel st)]
                  \<or> rest = [CreateMessage (thread_id newThread) message
                             (simulatedResponse message (selectedModel st)) (selectedModel st),
                            GetConversation (thread_id newThread)])))
         \<and> (\<not> isTemporary (currentSession st) \<longrightarrow>
          session_id (currentSession st') = session_id (currentSession st)
          \<and> \<not> isTemporary (currentSession st')
          \<and> conversions (context_calls w') = conversions (context_calls w)
          \<and> (\<exists>rest. calls w' = calls w @ rest \<and> CreateThread \<notin> set rest))"
  using guard res
  by (auto simp: send_defs mock_defs Let_def
      split: prod.splits sum.splits if_splits sim_result.splits option.splits)

theorem temporary_thread_promoted_once_witness:
  "isTemporary (currentSession example_state)
   \<and> createThread example_env (backend example_world) = (Inr \<lparr>thread_id = ''thread_7''\<rparr>, Suc 0)
   \<and> session_id (currentSession (fst (handleSendMessage example_env ''Hi''
        (example_state, example_world)))) = ''thread_7''
   \<and> \<not> isTemporary (currentSession (fst (handleSendMessage example_env ''Hi''
        (example_state, example_world))))
   \<and> conversions (context_calls (snd (handleSendMessage example_env ''Hi''
        (example_state, example_world)))) = [(''temp_1'', \<lparr>thread_id = ''thread_7''\<rparr>)]
   \<and> session_id (currentSession (fst (handleSendMessage example_env ''Hi''
        (example_state\<lparr>currentSession := example_session\<lparr>isTemporary := False\<rparr>\<rparr>,
         example_world)))) = ''temp_1''"
  using temporary_thread_promoted_once [of "''Hi''" example_state example_env example_world
      "fst (handleSendMessage example_env ''Hi'' (example_state, example_world))"
      "snd (handleSendMessage example_env ''Hi'' (example_state, example_world))"
      "\<lparr>thread_id = ''thread_7''\<rparr>" "Suc 0"]
    temporary_thread_promoted_once [of "''Hi''"
      "example_state\<lparr>currentSession := example_session\<lparr>isTemporary := False\<rparr>\<rparr>"
      example_env example_world
      "fst (handleSendMessage example_env ''Hi''
        (example_state\<lparr>currentSession := example_session\<lparr>isTemporary := False\<rparr>\<rparr>,
         example_world))"
      "snd (handleSendMessage example_env ''Hi''
        (example_state\<lparr>currentSession := example_session\<lparr>isTemporary := False\<rparr>\<rparr>,
         example_world))"]
  by (simp add: trim_Hi example_defs)

text \<open>
  Claim C2. When an exchange fails, in backend mode because a backend call is rejected
  (the \<^verbatim>\<open>try\<close> block throws) and in mock mode because the simulator calls
  \<^verbatim>\<open>onError\<close>, \<^verbatim>\<open>addMessage\<close> is called once more after the user's message, with the
  fixed fallback text as an answer of the selected model: the thread's messages are
  those it had, the user's message, and that one fallback message. The loading flag is
  off and the partial text is empty, so the exchange is over (Idle); the error is
  printed once.
\<close>

theorem send_failure_falls_back:
  assumes guard: "trim message \<noteq> []" "\<not> isLoading st"
    and fail: "if apiMode st
               then fst (sendTry env message (currentSession st) (selectedModel st)
                          (beginSend env message (st, w))) = Inl e
               else final (sendMessage env message (selectedModel st)
                            (useContext st \<and> uploadedFiles st \<noteq> [])
                            (session_id (currentSession st))) = OnError e"
    and res: "handleSendMessage env message (st, w) = (st', w')"
  shows "(\<exists>s. messages (currentSession st')
                = messages (currentSession st)
                  @ [newMessage env (currentSession st) message True None,
                     newMessage env s fallbackText False (Some (selectedModel st))])
         \<and> (\<exists>mid. context_calls w' = context_calls w
                @ AddMessage message True None # mid
                @ [AddMessage fallbackText False (Some (selectedModel st))]
              \<and> (mid = [] \<or> (\<exists>newThread.
                    mid = [ConvertTemporarySession (session_id (currentSession st)) newThread])))
         \<and> \<not> isLoading st' \<and> streamingMessage st' = []
         \<and> console_errors w' = console_errors w @ [e]"
  using assms
  apply (cases "apiMode st")
   apply (auto simp: send_defs mock_defs Let_def
      split: prod.splits sum.splits if_splits sim_result.splits option.splits)
  done

theorem send_failure_falls_back_witness:
  "fst (sendTry offline_env ''Hi'' (currentSession example_state) (selectedModel example_state)
          (beginSend offline_env ''Hi'' (example_state, example_world)))
     = Inl (Rejected ''Failed to fetch'')
   \<and> length (messages (currentSession (fst (handleSendMessage offline_env ''Hi''
         (example_state, example_world))))) = 4
   \<and> \<not> isLoading (fst (handleSendMessage offline_env ''Hi'' (example_state, example_world)))
   \<and> streamingMessage (fst (handleSendMessage offline_env ''Hi''
         (example_state, example_world))) = []
   \<and> console_errors (snd (handleSendMessage offline_env ''Hi'' (example_state, example_world)))
       = [Rejected ''Failed to fetch'']
   \<and> final (sendMessage offline_env ''Hi'' ''qwen3:0.6b'' False ''temp_1'')
       = OnError (Rejected ''stream broke'')
   \<and> length (messages (currentSession (fst (handleSendMessage offline_env ''Hi''
         (example_state\<lparr>apiMode := False\<rparr>, example_world))))) = 4
   \<and> \<not> isLoading (fst (handleSendMessage offline_env ''Hi''
         (example_state\<lparr>apiMode := False\<rparr>, example_world)))
   \<and> console_errors (snd (handleSendMessage offline_env ''Hi''
         (example_state\<lparr>apiMode := False\<rparr>, example_world)))
       = [Rejected ''stream broke'']"
proof -
  have thrown: "fst (sendTry offline_env ''Hi'' (currentSession example_state)
         (selectedModel example_state) (beginSend offline_env ''Hi'' (example_state, example_world)))
     = Inl (Rejected ''Failed to fetch'')"
    by (simp add: sendTry_def ensureThread_def call_createThread_def beginSend_def
        awaitAddMessage_def call_addMessage_def example_defs)
  have err: "final (sendMessage offline_env ''Hi'' ''qwen3:0.6b'' False ''temp_1'')
       = OnError (Rejected ''stream broke'')"
    by (simp add: example_defs)
  show ?thesis
    using thrown err
      send_failure_falls_back [of "''Hi''" example_state offline_env example_world
        "Rejected ''Failed to fetch''"
        "fst (handleSendMessage offline_env ''Hi'' (example_state, example_world))"
        "snd (handleSendMessage offline_env ''Hi'' (example_state, example_world))"]
      send_failure_falls_back [of "''Hi''" "example_state\<lparr>apiMode := False\<rparr>" offline_env
        example_world "Rejected ''stream broke''"
        "fst (handleSendMessage offline_env ''Hi''
           (example_state\<lparr>apiMode := False\<rparr>, example_world))"
        "snd (handleSendMessage offline_env ''Hi''
           (example_state\<lparr>apiMode := False\<rparr>, example_world))"]
    by (auto simp: trim_Hi example_defs)
qed

text \<open>
  Claim C3. In a backend-mode send in which every backend call succeeds,
  \<^verbatim>\<open>createMessage\<close> is called exactly once, with the thread's id and the user's question
  (the calls of the exchange are \<^verbatim>\<open>createThread\<close> if the thread was temporary, then
  \<^verbatim>\<open>createMessage\<close>, then \<^verbatim>\<open>getConversation\<close>), and \<^verbatim>\<open>updateSessionModel\<close> is called
  for that thread with \<^verbatim>\<open>transformConversation\<close> of the conversation that
  \<^verbatim>\<open>getConversation\<close> returned after the message was created. That is the thread's
  message list afterwards: nothing of the local list, the optimistic user message
  included, is kept.
\<close>

theorem backend_send_replaces_messages:
  assumes guard: "trim message \<noteq> []" "\<not> isLoading st" "apiMode st"
    and thr: "if isTemporary (currentSession st)
              then createThread env (backend w) = (Inr newThread, b1)
                   \<and> threadId = thread_id newThread
              else b1 = backend w \<and> threadId = session_id (currentSession st)"
    and cm: "createMessage env threadId message
               (simulatedResponse message (selectedModel st)) (selectedModel st) b1 = (Inr (), b2)"
    and gc: "getConversation env threadId b2 = (Inr conversation, b3)"
    and res: "handleSendMessage env message (st, w) = (st', w')"
  shows "messages (currentSession st') = transformConversation env conversation
         \<and> session_id (currentSession st') = threadId
         \<and> calls w' = calls w
               @ (if isTemporary (currentSession st) then [CreateThread] else [])
               @ [CreateMessage threadId message
                    (simulatedResponse message (selectedModel st)) (selectedModel st),
                  GetConversation threadId]
         \<and> context_calls w' = context_calls w
               @ [AddMessage message True None]
               @ (if isTemporary (currentSession st)
                  then [ConvertTemporarySession (session_id (currentSession st)) newThread]
                  else [])
               @ [UpdateSessionModel threadId (selectedModel st)
                    (transformConversation env conversation)]
         \<and> console_errors w' = console_errors w"
  using assms
  apply (cases "isTemporary (currentSession st)")
   apply (auto simp: send_defs Let_def split: prod.splits sum.splits if_splits)
  done

theorem backend_send_replaces_messages_witness:
  "createThread example_env (backend example_world) = (Inr \<lparr>thread_id = ''thread_7''\<rparr>, Suc 0)
   \<and> getConversation example_env ''thread_7'' (Suc (Suc 0))
       = (Inr example_conversation, Suc (Suc (Suc 0)))
   \<and> messages (currentSession (fst (handleSendMessage example_env ''Hi''
         (example_state, example_world)))) = example_conversation
   \<and> calls (snd (handleSendMessage example_env ''Hi'' (example_state, example_world)))
       = [CreateThread,
          CreateMessage ''thread_7'' ''Hi'' (simulatedResponse ''Hi'' ''qwen3:0.6b'') ''qwen3:0.6b'',
          GetConversation ''thread_7'']
   \<and> context_calls (snd (handleSendMessage example_env ''Hi'' (example_state, example_world)))
       = [AddMessage ''Hi'' True None,
          ConvertTemporarySession ''temp_1'' \<lparr>thread_id = ''thread_7''\<rparr>,
          UpdateSessionModel ''thread_7'' ''qwen3:0.6b'' example_conversation]"
proof -
  have ct: "createThread example_env (backend example_world)
      = (Inr \<lparr>thread_id = ''thread_7''\<rparr>, Suc 0)"
    by (simp add: example_defs)
  have gc: "getConversation example_env ''thread_7'' (Suc (Suc 0))
       = (Inr example_conversation, Suc (Suc (Suc 0)))"
    by (simp add: example_env_def)
  have cm: "createMessage example_env ''thread_7'' ''Hi''
       (simulatedResponse ''Hi'' (selectedModel example_state)) (selectedModel example_state) (Suc 0)
       = (Inr (), Suc (Suc 0))"
    by (simp add: example_env_def)
  have thr: "if isTemporary (currentSession example_state)
      then createThread example_env (backend example_world)
             = (Inr \<lparr>thread_id = ''thread_7''\<rparr>, Suc 0)
           \<and> ''thread_7'' = thread_id \<lparr>thread_id = ''thread_7''\<rparr>
      else Suc 0 = backend example_world
           \<and> ''thread_7'' = session_id (currentSession example_state)"
    using ct by (simp add: example_state_def example_session_def)
  have sel: "selectedModel example_state = ''qwen3:0.6b''"
    by (simp add: example_state_def)
  have pre: "trim ''Hi'' \<noteq> []" "\<not> isLoading example_state" "apiMode example_state"
    by (simp_all add: trim_Hi example_state_def)
  from backend_send_replaces_messages [OF pre thr cm gc, of
        "fst (handleSendMessage example_env ''Hi'' (example_state, example_world))"
        "snd (handleSendMessage example_env ''Hi'' (example_state, example_world))"]
  show ?thesis
    using ct gc by (simp add: sel example_world_def example_env_def example_state_def example_session_def)
qed

section \<open>Editing\<close>

text \<open>
  Claim C4. A submitted edit in mock mode on a message with an edit history (the
  message found by the id being edited, its \<^verbatim>\<open>edits\<close> not empty) makes that message's
  edits list one longer: the new last edit has the submitted text as its question and the
  answer of the edit that was the latest before, so the answer is reused. This holds of
  the list handed to \<^verbatim>\<open>updateSessionModel\<close> and of the thread afterwards.
\<close>

theorem mock_edit_reuses_previous_answer:
  assumes ed: "editingMessageId st = Some eid" "eid \<noteq> []"
    and text_ok: "trim updatedMessage \<noteq> []"
    and fnd: "find (\<lambda>msg. msg_id msg = eid) (messages (currentSession st)) = Some m"
    and mock: "\<not> apiMode st"
    and es: "edits m = Some es" "es \<noteq> []"
    and res: "handleSubmitEdit env updatedMessage (st, w) = (st', w')"
  shows "\<exists>i newEdit. i < length (messages (currentSession st))
           \<and> messages (currentSession st) ! i = m
           \<and> edits (messages (currentSession st') ! i) = Some (es @ [newEdit])
           \<and> length (es @ [newEdit]) = length es + 1
           \<and> edit_question newEdit = updatedMessage
           \<and> edit_answer newEdit = edit_answer (last es)
           \<and> context_calls w' = context_calls w
               @ [UpdateSessionModel (session_id (currentSession st)) (selectedModel st)
                    ((messages (currentSession st))[i := m\<lparr>edits := Some (es @ [newEdit])\<rparr>])]"
proof -
  from mock_edit_result [OF ed text_ok fnd mock es, of env w] res
  obtain i where i: "i < length (messages (currentSession st))"
      "messages (currentSession st) ! i = m"
    and st': "st' = st\<lparr>currentSession := (currentSession st)
                     \<lparr>modelName := selectedModel st,
                      messages := (messages (currentSession st))[i := m
                        \<lparr>edits := Some (es @
                           [\<lparr>edit_id = ''mock_edit_'' @ show_nat (length es + 1),
                             edit_model_name = selectedModel st,
                             edit_timestamp = now env,
                             edit_question = updatedMessage,
                             edit_answer = edit_answer (last es)\<rparr>])\<rparr>]\<rparr>,
                   editingMessageId := None, editingMessageText := [], isLoading := False\<rparr>"
    and w': "w' = w\<lparr>context_calls := context_calls w @
                   [UpdateSessionModel (session_id (currentSession st)) (selectedModel st)
                      ((messages (currentSession st))[i := m
                        \<lparr>edits := Some (es @
                           [\<lparr>edit_id = ''mock_edit_'' @ show_nat (length es + 1),
                             edit_model_name = selectedModel st,
                             edit_timestamp = now env,
                             edit_question = updatedMessage,
                             edit_answer = edit_answer (last es)\<rparr>])\<rparr>])]\<rparr>"
    by auto
  let ?new = "\<lparr>edit_id = ''mock_edit_'' @ show_nat (length es + 1),
               edit_model_name = selectedModel st,
               edit_timestamp = now env,
               edit_question = updatedMessage,
               edit_answer = edit_answer (last es)\<rparr>"
  from i show ?thesis
    unfolding st' w' by (intro exI [of _ i] exI [of _ ?new]) simp
qed

theorem mock_edit_reuses_previous_answer_witness:
  "find (\<lambda>msg. msg_id msg = ''msg_b'')
       (messages (currentSession (editing_state False ''msg_b''))) = Some branching_message
   \<and> edits branching_message = Some [first_edit]
   \<and> (\<exists>i newEdit. i < length (messages (currentSession (editing_state False ''msg_b'')))
         \<and> messages (currentSession (editing_state False ''msg_b'')) ! i = branching_message
         \<and> edits (messages (currentSession (fst (handleSubmitEdit example_env ''What is 3+3?''
               (editing_state False ''msg_b'', example_world)))) ! i)
             = Some ([first_edit] @ [newEdit])
         \<and> length ([first_edit] @ [newEdit]) = length [first_edit] + 1
         \<and> edit_question newEdit = ''What is 3+3?''
         \<and> edit_answer newEdit = edit_answer (last [first_edit])
         \<and> context_calls (snd (handleSubmitEdit example_env ''What is 3+3?''
               (editing_state False ''msg_b'', example_world)))
             = context_calls example_world
               @ [UpdateSessionModel (session_id (currentSession (editing_state False ''msg_b'')))
                    (selectedModel (editing_state False ''msg_b''))
                    ((messages (currentSession (editing_state False ''msg_b'')))
                       [i := branching_message\<lparr>edits := Some ([first_edit] @ [newEdit])\<rparr>])])"
proof -
  have ed: "editingMessageId (editing_state False ''msg_b'') = Some ''msg_b''" "''msg_b'' \<noteq> []"
    by (simp_all add: editing_state_def)
  have text_ok: "trim ''What is 3+3?'' \<noteq> []"
    by (simp add: trim_question)
  have mock: "\<not> apiMode (editing_state False ''msg_b'')"
    by (simp add: editing_state_def)
  have es: "edits branching_message = Some [first_edit]" "[first_edit] \<noteq> []"
    by (simp_all add: branching_message_def)
  have res: "handleSubmitEdit example_env ''What is 3+3?''
               (editing_state False ''msg_b'', example_world)
             = (fst (handleSubmitEdit example_env ''What is 3+3?''
                       (editing_state False ''msg_b'', example_world)),
                snd (handleSubmitEdit example_env ''What is 3+3?''
                       (editing_state False ''msg_b'', example_world)))"
    by simp
  note c = mock_edit_reuses_previous_answer [OF ed text_ok editing_found_b mock es res]
  from editing_found_b es(1) c show ?thesis by blast
qed

text \<open>
  Claim C8. Appending an edit, at both places where the component does it (the
  completion of a mock-mode send whose last message has an edit history, lines 126-139,
  and a mock-mode edit, lines 269-277), is followed on a store that holds the session's
  message list, with objects and arrays at addresses. After it every cell that was in
  the store is what it was: the original message object, its \<^verbatim>\<open>edits\<close> array, the edit
  objects and the session's list are not written, and the session's list reads as
  before. The list handed to \<^verbatim>\<open>updateSessionModel\<close> is a new array at a fresh address; it
  reads as the old list with, at the position of the message, a message whose edits are
  the old ones, in their order, followed by the one new edit, which is then the latest
  edit (\<^verbatim>\<open>edits[edits.length - 1]\<close>). That list is the thread's message list afterwards.
\<close>

theorem appended_edit_is_copy_on_write:
  "(read_messages h messagesRef = Some (messages (currentSession st))
      \<and> trim message \<noteq> [] \<and> \<not> isLoading st \<and> \<not> apiMode st
      \<and> final (sendMessage env message (selectedModel st)
                (useContext st \<and> uploadedFiles st \<noteq> []) (session_id (currentSession st)))
          = OnComplete fullResponse
      \<and> messages (currentSession st) \<noteq> []
      \<and> edits (last (messages (currentSession st))) = Some es
      \<and> handleSendMessage env message (st, w) = (st', w')
    \<longrightarrow> (\<exists>h' updatedMessages newEdit.
          completeEditsBranch h messagesRef message (selectedModel st) (now env) fullResponse
            = Some (h', updatedMessages)
          \<and> take (length h) h' = h
          \<and> length h \<le> updatedMessages
          \<and> read_messages h' messagesRef = Some (messages (currentSession st))
          \<and> read_messages h' updatedMessages
              = Some ((messages (currentSession st))
                  [length (messages (currentSession st)) - 1 :=
                     (last (messages (currentSession st)))\<lparr>edits := Some (es @ [newEdit])\<rparr>])
          \<and> messages (currentSession st')
              = (messages (currentSession st))
                  [length (messages (currentSession st)) - 1 :=
                     (last (messages (currentSession st)))\<lparr>edits := Some (es @ [newEdit])\<rparr>]
          \<and> context_calls w' = context_calls w
              @ [AddMessage message True None,
                 UpdateSessionModel (session_id (currentSession st)) (selectedModel st)
                   ((messages (currentSession st))
                      [length (messages (currentSession st)) - 1 :=
                         (last (messages (currentSession st)))
                           \<lparr>edits := Some (es @ [newEdit])\<rparr>])]
          \<and> edit_question newEdit = message \<and> edit_answer newEdit = fullResponse
          \<and> latestEdit (es @ [newEdit]) = Some newEdit))
   \<and> (read_messages h messagesRef = Some (messages (currentSession st))
      \<and> editingMessageId st = Some eid \<and> eid \<noteq> [] \<and> trim updatedMessage \<noteq> []
      \<and> find (\<lambda>msg. msg_id msg = eid) (messages (currentSession st)) = Some m
      \<and> \<not> apiMode st \<and> edits m = Some es \<and> es \<noteq> []
      \<and> handleSubmitEdit env updatedMessage (st, w) = (st'', w'')
    \<longrightarrow> (\<exists>h' updatedMessages i newEdit.
          submitEditsBranch h messagesRef eid updatedMessage (selectedModel st) (now env)
            = Some (h', updatedMessages)
          \<and> take (length h) h' = h
          \<and> length h \<le> updatedMessages
          \<and> read_messages h' messagesRef = Some (messages (currentSession st))
          \<and> i < length (messages (currentSession st))
          \<and> messages (currentSession st) ! i = m
          \<and> read_messages h' updatedMessages
              = Some ((messages (currentSession st))[i := m\<lparr>edits := Some (es @ [newEdit])\<rparr>])
          \<and> messages (currentSession st'')
              = (messages (currentSession st))[i := m\<lparr>edits := Some (es @ [newEdit])\<rparr>]
          \<and> context_calls w'' = context_calls w
              @ [UpdateSessionModel (session_id (currentSession st)) (selectedModel st)
                   ((messages (currentSession st))[i := m\<lparr>edits := Some (es @ [newEdit])\<rparr>])]
          \<and> edit_question newEdit = updatedMessage
          \<and> edit_answer newEdit = edit_answer (last es)
          \<and> latestEdit (es @ [newEdit]) = Some newEdit))"
proof (intro conjI impI)
  assume a: "read_messages h messagesRef = Some (messages (currentSession st))
      \<and> trim message \<noteq> [] \<and> \<not> isLoading st \<and> \<not> apiMode st
      \<and> final (sendMessage env message (selectedModel st)
                (useContext st \<and> uploadedFiles st \<noteq> []) (session_id (currentSession st)))
          = OnComplete fullResponse
      \<and> messages (currentSession st) \<noteq> []
      \<and> edits (last (messages (currentSession st))) = Some es
      \<and> handleSendMessage env message (st, w) = (st', w')"
  let ?new = "\<lparr>edit_id = ''mock_edit_'' @ show_nat (length es + 1),
               edit_model_name = selectedModel st,
               edit_timestamp = now env,
               edit_question = message,
               edit_answer = fullResponse\<rparr>"
  let ?L = "(messages (currentSession st))
              [length (messages (currentSession st)) - 1 :=
                 (last (messages (currentSession st)))\<lparr>edits := Some (es @ [?new])\<rparr>]"
  from a have rep: "read_messages h messagesRef = Some (messages (currentSession st))"
    and ne: "messages (currentSession st) \<noteq> []"
    and es: "edits (last (messages (currentSession st))) = Some es"
    by simp_all
  from completeEditsBranch_copy [OF rep ne es, of message "selectedModel st" "now env" fullResponse]
  obtain h' updatedMessages where
    store: "completeEditsBranch h messagesRef message (selectedModel st) (now env) fullResponse
              = Some (h', updatedMessages)"
      "take (length h) h' = h" "length h \<le> updatedMessages"
      "read_messages h' messagesRef = Some (messages (currentSession st))"
      "read_messages h' updatedMessages = Some ?L"
    by blast
  from a have "handleSendMessage env message (st, w) =
           (st\<lparr>currentSession := (currentSession st)
                 \<lparr>modelName := selectedModel st, messages := ?L\<rparr>,
               isLoading := False, streamingMessage := []\<rparr>,
            w\<lparr>context_calls := context_calls w @
               [AddMessage message True None,
                UpdateSessionModel (session_id (currentSession st)) (selectedModel st) ?L]\<rparr>)"
    by (intro mock_send_appends_edit) simp_all
  with a have handler: "messages (currentSession st') = ?L"
      "context_calls w' = context_calls w
         @ [AddMessage message True None,
            UpdateSessionModel (session_id (currentSession st)) (selectedModel st) ?L]"
    by auto
  show "\<exists>h' updatedMessages newEdit.
          completeEditsBranch h messagesRef message (selectedModel st) (now env) fullResponse
            = Some (h', updatedMessages)
          \<and> take (length h) h' = h
          \<and> length h \<le> updatedMessages
          \<and> read_messages h' messagesRef = Some (messages (currentSession st))
          \<and> read_messages h' updatedMessages
              = Some ((messages (currentSession st))
                  [length (messages (currentSession st)) - 1 :=
                     (last (messages (currentSession st)))\<lparr>edits := Some (es @ [newEdit])\<rparr>])
          \<and> messages (currentSession st')
              = (messages (currentSession st))
                  [length (messages (currentSession st)) - 1 :=
                     (last (messages (currentSession st)))\<lparr>edits := Some (es @ [newEdit])\<rparr>]
          \<and> context_calls w' = context_calls w
              @ [AddMessage message True None,
                 UpdateSessionModel (session_id (currentSession st)) (selectedModel st)
                   ((messages (currentSession st))
                      [length (messages (currentSession st)) - 1 :=
                         (last (messages (currentSession st)))
                           \<lparr>edits := Some (es @ [newEdit])\<rparr>])]
          \<and> edit_question newEdit = message \<and> edit_answer newEdit = fullResponse
          \<and> latestEdit (es @ [newEdit]) = Some newEdit"
    using store handler
    by (intro exI [of _ h'] exI [of _ updatedMessages] exI [of _ ?new])
       (simp add: latestEdit_def)
next
  assume b: "read_messages h messagesRef = Some (messages (currentSession st))
      \<and> editingMessageId st = Some eid \<and> eid \<noteq> [] \<and> trim updatedMessage \<noteq> []
      \<and> find (\<lambda>msg. msg_id msg = eid) (messages (currentSession st)) = Some m
      \<and> \<not> apiMode st \<and> edits m = Some es \<and> es \<noteq> []
      \<and> handleSubmitEdit env updatedMessage (st, w) = (st'', w'')"
  let ?new = "\<lparr>edit_id = ''mock_edit_'' @ show_nat (length es + 1),
               edit_model_name = selectedModel st,
               edit_timestamp = now env,
               edit_question = updatedMessage,
               edit_answer = edit_answer (last es)\<rparr>"
  from b have rep: "read_messages h messagesRef = Some (messages (currentSession st))"
    and fnd: "find (\<lambda>msg. msg_id msg = eid) (messages (currentSession st)) = Some m"
    and es: "edits m = Some es" "es \<noteq> []"
    by simp_all
  from submitEditsBranch_copy [OF rep fnd es, of updatedMessage "selectedModel st" "now env"]
  obtain h' updatedMessages i where
    store: "submitEditsBranch h messagesRef eid updatedMessage (selectedModel st) (now env)
              = Some (h', updatedMessages)"
      "take (length h) h' = h" "length h \<le> updatedMessages"
      "read_messages h' messagesRef = Some (messages (currentSession st))"
      "read_messages h' updatedMessages
         = Some ((messages (currentSession st))[i := m\<lparr>edits := Some (es @ [?new])\<rparr>])"
    and i: "findIndex (\<lambda>msg. msg_id msg = eid) (messages (currentSession st)) = Some i"
    by blast
  from b have "\<exists>i. findIndex (\<lambda>msg. msg_id msg = eid) (messages (currentSession st)) = Some i
           \<and> i < length (messages (currentSession st))
           \<and> messages (currentSession st) ! i = m
           \<and> handleSubmitEdit env updatedMessage (st, w) =
               (st\<lparr>currentSession := (currentSession st)
                     \<lparr>modelName := selectedModel st,
                      messages := (messages (currentSession st))[i := m
                        \<lparr>edits := Some (es @ [?new])\<rparr>]\<rparr>,
                   editingMessageId := None, editingMessageText := [], isLoading := False\<rparr>,
                w\<lparr>context_calls := context_calls w @
                   [UpdateSessionModel (session_id (currentSession st)) (selectedModel st)
                      ((messages (currentSession st))[i := m
                        \<lparr>edits := Some (es @ [?new])\<rparr>])]\<rparr>)"
    by (intro mock_edit_result) simp_all
  with b i have handler: "i < length (messages (currentSession st))"
      "messages (currentSession st) ! i = m"
      "messages (currentSession st'')
         = (messages (currentSession st))[i := m\<lparr>edits := Some (es @ [?new])\<rparr>]"
      "context_calls w'' = context_calls w
         @ [UpdateSessionModel (session_id (currentSession st)) (selectedModel st)
              ((messages (currentSession st))[i := m\<lparr>edits := Some (es @ [?new])\<rparr>])]"
    by auto
  show "\<exists>h' updatedMessages i newEdit.
          submitEditsBranch h messagesRef eid updatedMessage (selectedModel st) (now env)
            = Some (h', updatedMessages)
          \<and> take (length h) h' = h
          \<and> length h \<le> updatedMessages
          \<and> read_messages h' messagesRef = Some (messages (currentSession st))
          \<and> i < length (messages (currentSession st))
          \<and> messages (currentSession st) ! i = m
          \<and> read_messages h' updatedMessages
              = Some ((messages (currentSession st))[i := m\<lparr>edits := Some (es @ [newEdit])\<rparr>])
          \<and> messages (currentSession st'')
              = (messages (currentSession st))[i := m\<lparr>edits := Some (es @ [newEdit])\<rparr>]
          \<and> context_calls w'' = context_calls w
              @ [UpdateSessionModel (session_id (currentSession st)) (selectedModel st)
                   ((messages (currentSession st))[i := m\<lparr>edits := Some (es @ [newEdit])\<rparr>])]
          \<and> edit_question newEdit = updatedMessage
          \<and> edit_answer newEdit = edit_answer (last es)
          \<and> latestEdit (es @ [newEdit]) = Some newEdit"
    using store handler
    by (intro exI [of _ h'] exI [of _ updatedMessages] exI [of _ i] exI [of _ ?new])
       (simp add: latestEdit_def)
qed

theorem appended_edit_is_copy_on_write_witness:
  "read_messages example_store 4 = Some (messages (currentSession (example_state\<lparr>apiMode := False\<rparr>)))
   \<and> (\<exists>h' updatedMessages newEdit.
          completeEditsBranch example_store 4 ''Hi''
              (selectedModel (example_state\<lparr>apiMode := False\<rparr>)) (now example_env) ''Hello, world''
            = Some (h', updatedMessages)
          \<and> take (length example_store) h' = example_store
          \<and> length example_store \<le> updatedMessages
          \<and> read_messages h' 4 = Some (messages (currentSession (example_state\<lparr>apiMode := False\<rparr>)))
          \<and> read_messages h' updatedMessages
              = Some ((messages (currentSession (example_state\<lparr>apiMode := False\<rparr>)))
                  [length (messages (currentSession (example_state\<lparr>apiMode := False\<rparr>))) - 1 :=
                     (last (messages (currentSession (example_state\<lparr>apiMode := False\<rparr>))))
                       \<lparr>edits := Some ([first_edit] @ [newEdit])\<rparr>])
          \<and> messages (currentSession (fst (handleSendMessage example_env ''Hi''
                (example_state\<lparr>apiMode := False\<rparr>, example_world))))
              = (messages (currentSession (example_state\<lparr>apiMode := False\<rparr>)))
                  [length (messages (currentSession (example_state\<lparr>apiMode := False\<rparr>))) - 1 :=
                     (last (messages (currentSession (example_state\<lparr>apiMode := False\<rparr>))))
                       \<lparr>edits := Some ([first_edit] @ [newEdit])\<rparr>]
          \<and> context_calls (snd (handleSendMessage example_env ''Hi''
                (example_state\<lparr>apiMode := False\<rparr>, example_world)))
              = context_calls example_world
              @ [AddMessage ''Hi'' True None,
                 UpdateSessionModel (session_id (currentSession (example_state\<lparr>apiMode := False\<rparr>)))
                   (selectedModel (example_state\<lparr>apiMode := False\<rparr>))
                   ((messages (currentSession (example_state\<lparr>apiMode := False\<rparr>)))
                      [length (messages (currentSession (example_state\<lparr>apiMode := False\<rparr>))) - 1 :=
                         (last (messages (currentSession (example_state\<lparr>apiMode := False\<rparr>))))
                           \<lparr>edits := Some ([first_edit] @ [newEdit])\<rparr>])]
          \<and> edit_question newEdit = ''Hi'' \<and> edit_answer newEdit = ''Hello, world''
          \<and> latestEdit ([first_edit] @ [newEdit]) = Some newEdit)
   \<and> (\<exists>h' updatedMessages i newEdit.
          submitEditsBranch example_store 4 ''msg_b'' ''What is 3+3?''
              (selectedModel (editing_state False ''msg_b'')) (now example_env)
            = Some (h', updatedMessages)
          \<and> take (length example_store) h' = example_store
          \<and> length example_store \<le> updatedMessages
          \<and> read_messages h' 4 = Some (messages (currentSession (editing_state False ''msg_b'')))
          \<and> i < length (messages (currentSession (editing_state False ''msg_b'')))
          \<and> messages (currentSession (editing_state False ''msg_b'')) ! i = branching_message
          \<and> read_messages h' updatedMessages
              = Some ((messages (currentSession (editing_state False ''msg_b'')))
                  [i := branching_message\<lparr>edits := Some ([first_edit] @ [newEdit])\<rparr>])
          \<and> messages (currentSession (fst (handleSubmitEdit example_env ''What is 3+3?''
                (editing_state False ''msg_b'', example_world))))
              = (messages (currentSession (editing_state False ''msg_b'')))
                  [i := branching_message\<lparr>edits := Some ([first_edit] @ [newEdit])\<rparr>]
          \<and> context_calls (snd (handleSubmitEdit example_env ''What is 3+3?''
                (editing_state False ''msg_b'', example_world)))
              = context_calls example_world
              @ [UpdateSessionModel (session_id (currentSession (editing_state False ''msg_b'')))
                   (selectedModel (editing_state False ''msg_b''))
                   ((messages (currentSession (editing_state False ''msg_b'')))
                      [i := branching_message\<lparr>edits := Some ([first_edit] @ [newEdit])\<rparr>])]
          \<and> edit_question newEdit = ''What is 3+3?''
          \<and> edit_answer newEdit = edit_answer (last [first_edit])
          \<and> latestEdit ([first_edit] @ [newEdit]) = Some newEdit)"
proof -
  let ?sa = "example_state\<lparr>apiMode := False\<rparr>"
  let ?sb = "editing_state False ''msg_b''"
  have ra: "read_messages example_store 4 = Some (messages (currentSession ?sa))"
    by (simp add: store_defs example_store_def example_defs)
  have rb: "read_messages example_store 4 = Some (messages (currentSession ?sb))"
    by (simp add: store_defs example_store_def example_defs)
  have a1: "trim ''Hi'' \<noteq> []"
    by (simp add: trim_Hi)
  have a2: "\<not> isLoading ?sa" "\<not> apiMode ?sa"
    by (simp_all add: example_state_def)
  have a3: "final (sendMessage example_env ''Hi'' (selectedModel ?sa)
                (useContext ?sa \<and> uploadedFiles ?sa \<noteq> []) (session_id (currentSession ?sa)))
          = OnComplete ''Hello, world''"
    by (simp add: example_env_def)
  have a4: "messages (currentSession ?sa) \<noteq> []"
    by (simp add: example_state_def example_session_def)
  have a5: "edits (last (messages (currentSession ?sa))) = Some [first_edit]"
    by (simp add: example_state_def example_session_def branching_message_def)
  have a6: "handleSendMessage example_env ''Hi'' (?sa, example_world)
      = (fst (handleSendMessage example_env ''Hi'' (?sa, example_world)),
         snd (handleSendMessage example_env ''Hi'' (?sa, example_world)))"
    by simp
  have b1: "editingMessageId ?sb = Some ''msg_b''" "''msg_b'' \<noteq> []"
    by (simp_all add: editing_state_def)
  have b2: "trim ''What is 3+3?'' \<noteq> []"
    by (simp add: trim_question)
  have b3: "\<not> apiMode ?sb"
    by (simp add: editing_state_def)
  have b4: "edits branching_message = Some [first_edit]" "[first_edit] \<noteq> []"
    by (simp_all add: branching_message_def)
  have b5: "handleSubmitEdit example_env ''What is 3+3?'' (?sb, example_world)
      = (fst (handleSubmitEdit example_env ''What is 3+3?'' (?sb, example_world)),
         snd (handleSubmitEdit example_env ''What is 3+3?'' (?sb, example_world)))"
    by simp
  note a = appended_edit_is_copy_on_write [
        where h = example_store and messagesRef = 4
          and message = "''Hi''" and st = ?sa
          and env = example_env and w = example_world and fullResponse = "''Hello, world''"
          and es = "[first_edit]"
          and st' = "fst (handleSendMessage example_env ''Hi'' (?sa, example_world))"
          and w' = "snd (handleSendMessage example_env ''Hi'' (?sa, example_world))",
        THEN conjunct1, rule_format]
  note b = appended_edit_is_copy_on_write [
        where h = example_store and messagesRef = 4
          and st = ?sb and eid = "''msg_b''"
          and updatedMessage = "''What is 3+3?''" and m = branching_message
          and env = example_env and w = example_world
          and es = "[first_edit]"
          and st'' = "fst (handleSubmitEdit example_env ''What is 3+3?'' (?sb, example_world))"
          and w'' = "snd (handleSubmitEdit example_env ''What is 3+3?'' (?sb, example_world))",
        THEN conjunct2, rule_format]
  note ca = a [OF conjI [OF ra conjI [OF a1 conjI [OF a2(1) conjI [OF a2(2)
              conjI [OF a3 conjI [OF a4 conjI [OF a5 a6]]]]]]]]
  note cb = b [OF conjI [OF rb conjI [OF b1(1) conjI [OF b1(2) conjI [OF b2
              conjI [OF editing_found_b conjI [OF b3 conjI [OF b4(1) conjI [OF b4(2) b5]]]]]]]]]
  from ra ca cb show ?thesis by (intro conjI)
qed

text \<open>
  Claim C9. When the backend call of a submitted edit throws (\<^verbatim>\<open>createMessageEdit\<close>
  is rejected, or it succeeds and \<^verbatim>\<open>getConversation\<close> is rejected), the thread is left
  as it was, with no fallback message; the loading flag is off; the id and text of the
  message being edited are still set, so the editing session stays open. Nothing but
  the loading flag differs from the state before, no function of the session context
  is called, and the error is printed.
\<close>

theorem edit_failure_keeps_editing_state:
  assumes ed: "editingMessageId st = Some eid" "eid \<noteq> []"
    and text_ok: "trim updatedMessage \<noteq> []"
    and fnd: "find (\<lambda>msg. msg_id msg = eid) (messages (currentSession st)) = Some m"
    and api: "apiMode st"
    and es: "edits m = Some es"
    and cme: "createMessageEdit env (msg_id m) updatedMessage
                (simulatedEditResponse updatedMessage (selectedModel st)) (selectedModel st)
                (backend w) = (r, b1)"
    and fail: "r = Inl e
               \<or> (r = Inr () \<and> fst (getConversation env (session_id (currentSession st)) b1) = Inl e)"
    and res: "handleSubmitEdit env updatedMessage (st, w) = (st', w')"
  shows "currentSession st' = currentSession st
         \<and> \<not> isLoading st'
         \<and> editingMessageId st' = Some eid
         \<and> editingMessageText st' = editingMessageText st
         \<and> st' = st\<lparr>isLoading := False\<rparr>
         \<and> context_calls w' = context_calls w
         \<and> console_errors w' = console_errors w @ [e]"
  using assms
  by (auto simp: submit_defs Let_def split: prod.splits sum.splits)

theorem edit_failure_keeps_editing_state_witness:
  "createMessageEdit offline_env (msg_id branching_message) ''What is 3+3?''
       (simulatedEditResponse ''What is 3+3?'' (selectedModel (editing_state True ''msg_b'')))
       (selectedModel (editing_state True ''msg_b'')) (backend example_world)
     = (Inl (Rejected ''Failed to fetch''), Suc 0)
   \<and> currentSession (fst (handleSubmitEdit offline_env ''What is 3+3?''
         (editing_state True ''msg_b'', example_world)))
       = currentSession (editing_state True ''msg_b'')
   \<and> \<not> isLoading (fst (handleSubmitEdit offline_env ''What is 3+3?''
         (editing_state True ''msg_b'', example_world)))
   \<and> editingMessageId (fst (handleSubmitEdit offline_env ''What is 3+3?''
         (editing_state True ''msg_b'', example_world))) = Some ''msg_b''
   \<and> editingMessageText (fst (handleSubmitEdit offline_env ''What is 3+3?''
         (editing_state True ''msg_b'', example_world)))
       = editingMessageText (editing_state True ''msg_b'')
   \<and> fst (handleSubmitEdit offline_env ''What is 3+3?''
         (editing_state True ''msg_b'', example_world))
       = (editing_state True ''msg_b'')\<lparr>isLoading := False\<rparr>
   \<and> context_calls (snd (handleSubmitEdit offline_env ''What is 3+3?''
         (editing_state True ''msg_b'', example_world))) = context_calls example_world
   \<and> console_errors (snd (handleSubmitEdit offline_env ''What is 3+3?''
         (editing_state True ''msg_b'', example_world)))
       = console_errors example_world @ [Rejected ''Failed to fetch'']"
proof -
  let ?s = "editing_state True ''msg_b''"
  have ed: "editingMessageId ?s = Some ''msg_b''" "''msg_b'' \<noteq> []"
    by (simp_all add: editing_state_def)
  have text_ok: "trim ''What is 3+3?'' \<noteq> []"
    by (simp add: trim_question)
  have api: "apiMode ?s"
    by (simp add: editing_state_def)
  have es: "edits branching_message = Some [first_edit]"
    by (simp add: branching_message_def)
  have cme: "createMessageEdit offline_env (msg_id branching_message) ''What is 3+3?''
       (simulatedEditResponse ''What is 3+3?'' (selectedModel ?s))
       (selectedModel ?s) (backend example_world)
     = (Inl (Rejected ''Failed to fetch''), Suc 0)"
    by (simp add: offline_env_def example_world_def)
  have fail: "(Inl (Rejected ''Failed to fetch'') :: js_error + unit) = Inl (Rejected ''Failed to fetch'')
       \<or> ((Inl (Rejected ''Failed to fetch'') :: js_error + unit) = Inr ()
          \<and> fst (getConversation offline_env (session_id (currentSession ?s)) (Suc 0))
              = Inl (Rejected ''Failed to fetch''))"
    by simp
  have res: "handleSubmitEdit offline_env ''What is 3+3?'' (?s, example_world)
      = (fst (handleSubmitEdit offline_env ''What is 3+3?'' (?s, example_world)),
         snd (handleSubmitEdit offline_env ''What is 3+3?'' (?s, example_world)))"
    by simp
  note c = edit_failure_keeps_editing_state [OF ed text_ok editing_found_b api es cme fail res]
  from cme c show ?thesis by (rule conjI)
qed

text \<open>
  Claim C10. A submitted edit in mock mode on a legacy message (no \<^verbatim>\<open>edits\<close>) replaces
  the question of that message and nothing else of it: its answer, id, model name and
  every other property are kept, the list is as long as before, and every other message
  of the list is untouched. That list is what \<^verbatim>\<open>updateSessionModel\<close> is called with.
\<close>

theorem mock_legacy_edit_changes_question_only:
  assumes ed: "editingMessageId st = Some eid" "eid \<noteq> []"
    and text_ok: "trim updatedMessage \<noteq> []"
    and fnd: "find (\<lambda>msg. msg_id msg = eid) (messages (currentSession st)) = Some m"
    and mock: "\<not> apiMode st"
    and es: "edits m = None"
    and res: "handleSubmitEdit env updatedMessage (st, w) = (st', w')"
  shows "\<exists>i. i < length (messages (currentSession st))
           \<and> messages (currentSession st) ! i = m
           \<and> messages (currentSession st')
               = (messages (currentSession st))[i := m\<lparr>question := Some updatedMessage\<rparr>]
           \<and> length (messages (currentSession st')) = length (messages (currentSession st))
           \<and> (\<forall>j<length (messages (currentSession st)). j \<noteq> i \<longrightarrow>
                 messages (currentSession st') ! j = messages (currentSession st) ! j)
           \<and> question (messages (currentSession st') ! i) = Some updatedMessage
           \<and> answer (messages (currentSession st') ! i) = answer m
           \<and> msg_id (messages (currentSession st') ! i) = msg_id m
           \<and> edits (messages (currentSession st') ! i) = edits m
           \<and> model_name (messages (currentSession st') ! i) = model_name m
           \<and> other (messages (currentSession st') ! i) = other m
           \<and> context_calls w' = context_calls w
               @ [UpdateSessionModel (session_id (currentSession st)) (selectedModel st)
                    ((messages (currentSession st))[i := m\<lparr>question := Some updatedMessage\<rparr>])]"
proof -
  from mock_legacy_result [OF ed text_ok fnd mock es, of env w] res
  obtain i where i: "i < length (messages (currentSession st))"
      "messages (currentSession st) ! i = m"
    and st': "st' = st\<lparr>currentSession := (currentSession st)
                     \<lparr>modelName := selectedModel st,
                      messages := (messages (currentSession st))[i := m
                        \<lparr>question := Some updatedMessage\<rparr>]\<rparr>,
                   editingMessageId := None, editingMessageText := [], isLoading := False\<rparr>"
    and w': "w' = w\<lparr>context_calls := context_calls w @
                   [UpdateSessionModel (session_id (currentSession st)) (selectedModel st)
                      ((messages (currentSession st))[i := m
                        \<lparr>question := Some updatedMessage\<rparr>])]\<rparr>"
    by auto
  from i show ?thesis
    unfolding st' w' by (intro exI [of _ i]) simp
qed

theorem mock_legacy_edit_changes_question_only_witness:
  "find (\<lambda>msg. msg_id msg = ''msg_a'')
       (messages (currentSession (editing_state False ''msg_a''))) = Some legacy_message
   \<and> edits legacy_message = None
   \<and> (\<exists>i. i < length (messages (currentSession (editing_state False ''msg_a'')))
        \<and> messages (currentSession (editing_state False ''msg_a'')) ! i = legacy_message
        \<and> messages (currentSession (fst (handleSubmitEdit example_env ''What is 3+3?''
              (editing_state False ''msg_a'', example_world))))
            = (messages (currentSession (editing_state False ''msg_a'')))
                [i := legacy_message\<lparr>question := Some ''What is 3+3?''\<rparr>]
        \<and> answer (messages (currentSession (fst (handleSubmitEdit example_env ''What is 3+3?''
              (editing_state False ''msg_a'', example_world)))) ! i) = answer legacy_message)"
proof -
  let ?s = "editing_state False ''msg_a''"
  have ed: "editingMessageId ?s = Some ''msg_a''" "''msg_a'' \<noteq> []"
    by (simp_all add: editing_state_def)
  have text_ok: "trim ''What is 3+3?'' \<noteq> []"
    by (simp add: trim_question)
  have mock: "\<not> apiMode ?s"
    by (simp add: editing_state_def)
  have es: "edits legacy_message = None"
    by (simp add: legacy_message_def)
  have res: "handleSubmitEdit example_env ''What is 3+3?'' (?s, example_world)
      = (fst (handleSubmitEdit example_env ''What is 3+3?'' (?s, example_world)),
         snd (handleSubmitEdit example_env ''What is 3+3?'' (?s, example_world)))"
    by simp
  note c = mock_legacy_edit_changes_question_only [OF ed text_ok editing_found_a mock es res]
  from editing_found_a [of False] es c show ?thesis by blast
qed

text \<open>
  Claim C5. A submitted edit on a legacy message (no \<^verbatim>\<open>edits\<close>) is to update the field
  of that message directly, in whichever dispatch mode. In backend mode the code does
  not: the branch of lines 231-253 has the case \<^verbatim>\<open>if (messageToEdit.edits)\<close> and no
  other, so for a legacy message no call is made and no field is written, while lines
  296-299 clear the editing state as after a success. At the following input the legacy
  message of the concrete setting keeps its question "What is 2+2?" when "What is 3+3?"
  is submitted, and the edit is lost.
\<close>

theorem backend_legacy_edit_not_applied:
  "apiMode (editing_state True ''msg_a'')
   \<and> editingMessageId (editing_state True ''msg_a'') = Some ''msg_a''
   \<and> find (\<lambda>msg. msg_id msg = ''msg_a'')
       (messages (currentSession (editing_state True ''msg_a''))) = Some legacy_message
   \<and> edits legacy_message = None
   \<and> handleSubmitEdit example_env ''What is 3+3?'' (editing_state True ''msg_a'', example_world)
       = ((editing_state True ''msg_a'')
            \<lparr>editingMessageId := None, editingMessageText := [], isLoading := False\<rparr>,
          example_world)
   \<and> messages (currentSession (fst (handleSubmitEdit example_env ''What is 3+3?''
         (editing_state True ''msg_a'', example_world))))
       = messages (currentSession (editing_state True ''msg_a''))
   \<and> question (messages (currentSession (fst (handleSubmitEdit example_env ''What is 3+3?''
         (editing_state True ''msg_a'', example_world)))) ! 0) = Some ''What is 2+2?''
   \<and> question (messages (currentSession (fst (handleSubmitEdit example_env ''What is 3+3?''
         (editing_state True ''msg_a'', example_world)))) ! 0) \<noteq> Some ''What is 3+3?''"
proof -
  let ?s = "editing_state True ''msg_a''"
  have api: "apiMode ?s" and ed: "editingMessageId ?s = Some ''msg_a''"
    by (simp_all add: editing_state_def)
  have es: "edits legacy_message = None"
    by (simp add: legacy_message_def)
  have run: "handleSubmitEdit example_env ''What is 3+3?'' (?s, example_world)
       = (?s\<lparr>editingMessageId := None, editingMessageText := [], isLoading := False\<rparr>,
          example_world)"
    using api ed es editing_found_a [of True]
    by (simp add: handleSubmitEdit_def submitTry_def trim_question)
  have q: "question (messages (currentSession ?s) ! 0) = Some ''What is 2+2?''"
    by (simp add: example_defs)
  from api ed editing_found_a [of True] es run q show ?thesis
    by simp
qed

text \<open>
  The mock branch (lines 279-292) does what the backend branch leaves out: the question
  of the legacy message is replaced where it stands, no edits list is made, the list
  has the length it had, no backend call is made, and the editing state is cleared.
\<close>

lemma mock_legacy_edit_updates_in_place:
  assumes ed: "editingMessageId st = Some eid" "eid \<noteq> []"
    and text_ok: "trim updatedMessage \<noteq> []"
    and fnd: "find (\<lambda>msg. msg_id msg = eid) (messages (currentSession st)) = Some m"
    and mock: "\<not> apiMode st"
    and es: "edits m = None"
    and res: "handleSubmitEdit env updatedMessage (st, w) = (st', w')"
  shows "\<exists>i. findIndex (\<lambda>msg. msg_id msg = eid) (messages (currentSession st)) = Some i
           \<and> question (messages (currentSession st') ! i) = Some updatedMessage
           \<and> edits (messages (currentSession st') ! i) = None
           \<and> length (messages (currentSession st')) = length (messages (currentSession st))
           \<and> editingMessageId st' = None \<and> editingMessageText st' = []
           \<and> \<not> isLoading st' \<and> calls w' = calls w \<and> backend w' = backend w"
proof -
  from mock_legacy_result [OF ed text_ok fnd mock es, of env w] res
  obtain i where i: "i < length (messages (currentSession st))"
      "messages (currentSession st) ! i = m"
      "findIndex (\<lambda>msg. msg_id msg = eid) (messages (currentSession st)) = Some i"
    and st': "st' = st\<lparr>currentSession := (currentSession st)
                     \<lparr>modelName := selectedModel st,
                      messages := (messages (currentSession st))[i := m
                        \<lparr>question := Some updatedMessage\<rparr>]\<rparr>,
                   editingMessageId := None, editingMessageText := [], isLoading := False\<rparr>"
    and w': "w' = w\<lparr>context_calls := context_calls w @
                   [UpdateSessionModel (session_id (currentSession st)) (selectedModel st)
                      ((messages (currentSession st))[i := m
                        \<lparr>question := Some updatedMessage\<rparr>])]\<rparr>"
    by auto
  from i es show ?thesis
    unfolding st' w' by (intro exI [of _ i]) simp
qed

end
